theory Spec2Isabelle
  imports Main
begin

section \<open>Python values, exceptions and observable effects\<close>

text \<open>
  The three site adapters (\<^verbatim>\<open>sites/welt.py\<close>, \<^verbatim>\<open>sites/zeit.py\<close>,
  \<^verbatim>\<open>sites/handelsblatt.py\<close>) are methods of subclasses of \<^verbatim>\<open>NewspaperManager\<close>.
  Every method is modelled as a function that returns the Python result together with the
  effects it performed, in program order. A raised exception is \<open>Inl\<close> of the exception
  class, a returned value is \<open>Inr\<close> of the value.
\<close>

datatype exn =
    AttributeError | TypeError | KeyError | NameError | ValueError
  | TimeoutException | NoSuchElementException | WebDriverException

datatype level = INFO | WARNING | ERROR

text \<open>
  \<open>Request u\<close> is a call \<^verbatim>\<open>self._request(u)\<close>, \<open>Log l m\<close> a call of \<^verbatim>\<open>log.info\<close>,
  \<^verbatim>\<open>log.warning\<close> or \<^verbatim>\<open>log.error\<close>, \<open>Print m\<close> a \<^verbatim>\<open>print(m)\<close>, and \<open>PrintTraceback\<close>
  the call \<^verbatim>\<open>print(traceback.format_exc())\<close>.
\<close>

datatype event = Request string | Log level string | Print string | PrintTraceback

datatype tz = UTC

record date =
  d_year :: nat
  d_month :: nat
  d_day :: nat

text \<open>
  A publication date as the adapters produce it: pandas' missing value \<^verbatim>\<open>pd.NaT\<close>, a pandas
  \<^verbatim>\<open>Timestamp\<close> (an instant with an optional time zone), or a \<^verbatim>\<open>datetime.datetime\<close>
  (calendar day, hour, minute, second, microsecond, optional time zone).
\<close>

datatype pub_date =
    NaT
  | Timestamp int "tz option"
  | Datetime date nat nat nat nat "tz option"

fun tz_aware :: "pub_date \<Rightarrow> bool" where
  "tz_aware NaT = False"
| "tz_aware (Timestamp t z) = (z = Some UTC)"
| "tz_aware (Datetime d h m s us z) = (z = Some UTC)"

section \<open>Strings\<close>

text \<open>Python's \<^verbatim>\<open>str.isspace\<close> on the ASCII range.\<close>

definition is_space :: "char \<Rightarrow> bool" where
  "is_space c = (c \<in> set [CHR 0x20, CHR 0x09, CHR 0x0A, CHR 0x0B, CHR 0x0C, CHR 0x0D,
                           CHR 0x1C, CHR 0x1D, CHR 0x1E, CHR 0x1F])"

definition strip :: "string \<Rightarrow> string" where
  "strip s = rev (dropWhile is_space (rev (dropWhile is_space s)))"

fun join :: "string \<Rightarrow> string list \<Rightarrow> string" where
  "join sep [] = []"
| "join sep [x] = x"
| "join sep (x # y # ys) = x @ sep @ join sep (y # ys)"

text \<open>The maximal runs of non-space characters, as the regular expression \<^verbatim>\<open>\S+\<close> finds them.\<close>

fun tokens_acc :: "string \<Rightarrow> string \<Rightarrow> string list" where
  "tokens_acc cur [] = (if cur = [] then [] else [rev cur])"
| "tokens_acc cur (c # cs) =
     (if is_space c then (if cur = [] then tokens_acc [] cs else rev cur # tokens_acc [] cs)
      else tokens_acc (c # cur) cs)"

definition tokens :: "string \<Rightarrow> string list" where
  "tokens s = tokens_acc [] s"

fun startswith :: "string \<Rightarrow> string \<Rightarrow> bool" where
  "startswith s [] = True"
| "startswith [] (p # ps) = False"
| "startswith (c # cs) (p # ps) = (c = p \<and> startswith cs ps)"

text \<open>\<^verbatim>\<open>sub in s\<close> on strings.\<close>

fun contains :: "string \<Rightarrow> string \<Rightarrow> bool" where
  "contains [] sub = (sub = [])"
| "contains (c # cs) sub = (if startswith (c # cs) sub then True else contains cs sub)"

text \<open>
  \<^verbatim>\<open>s.replace(old, new)\<close> for a non-empty \<open>old\<close> (the adapters only replace the literals
  \<^verbatim>\<open>'Uhr'\<close> and \<^verbatim>\<open>','\<close>): non-overlapping occurrences, leftmost first.
\<close>

function replace :: "string \<Rightarrow> string \<Rightarrow> string \<Rightarrow> string" where
  "replace old new [] = []"
| "replace old new (c # cs) =
     (if old \<noteq> [] \<and> startswith (c # cs) old
      then new @ replace old new (drop (length old) (c # cs))
      else c # replace old new cs)"
  by pat_completeness auto
termination
  by (relation "measure (\<lambda>(old, new, s). length s)") auto

text \<open>Decimal rendering of numbers, as \<^verbatim>\<open>str(n)\<close> and the f-string fields produce it.\<close>

definition digit :: "nat \<Rightarrow> char" where
  "digit n = ''0123456789'' ! (n mod 10)"

fun str_nat :: "nat \<Rightarrow> string" where
  "str_nat n = (if n < 10 then [digit n] else str_nat (n div 10) @ [digit n])"

definition str_int :: "int \<Rightarrow> string" where
  "str_int i = (if i < 0 then CHR ''-'' # str_nat (nat (- i)) else str_nat (nat i))"

text \<open>The format specification \<^verbatim>\<open>:02\<close>: sign-aware zero padding to width 2.\<close>

definition fmt_02 :: "int \<Rightarrow> string" where
  "fmt_02 i = (if i < 0 then str_int i
               else if i < 10 then CHR ''0'' # str_nat (nat i) else str_nat (nat i))"

text \<open>
  \<^verbatim>\<open>strftime\<close> fields: \<^verbatim>\<open>%d\<close> and \<^verbatim>\<open>%m\<close> are zero-padded to two digits, \<^verbatim>\<open>%Y\<close> is the
  year in decimal.
\<close>

definition pad2 :: "nat \<Rightarrow> string" where
  "pad2 n = (if n < 10 then CHR ''0'' # str_nat n else str_nat n)"

section \<open>The parsed document (BeautifulSoup)\<close>

text \<open>
  A parsed page is a tree of tags and strings. A tag carries its name, its attributes as
  the parser resolved them, and its contents. The \<^verbatim>\<open>BeautifulSoup\<close> object itself is the
  root tag of the tree.
\<close>

datatype node =
    Tag string "(string \<times> string) list" "node list"
  | NavigableString string

text \<open>All nodes below a node, in document order.\<close>

fun descendants :: "node \<Rightarrow> node list" where
  "descendants (Tag nm ats cs) = concat (map (\<lambda>c. c # descendants c) cs)"
| "descendants (NavigableString s) = []"

text \<open>
  An attribute filter of \<^verbatim>\<open>find\<close>/\<^verbatim>\<open>find_all\<close>: a string to match, or \<^verbatim>\<open>True\<close> (the
  attribute is present). The \<^verbatim>\<open>class\<close> attribute is multi-valued: a string matches it
  when it is one of the attribute's tokens or the tokens joined by single spaces.
\<close>

datatype attr_filter = Equals string | Present

fun attr_matches :: "(string \<times> string) list \<Rightarrow> string \<times> attr_filter \<Rightarrow> bool" where
  "attr_matches ats (k, Present) = (map_of ats k \<noteq> None)"
| "attr_matches ats (k, Equals s) =
     (case map_of ats k of
        None \<Rightarrow> False
      | Some v \<Rightarrow>
          if k = ''class'' then (s \<in> set (tokens v) \<or> s = join '' '' (tokens v))
          else v = s)"

fun tag_matches :: "string \<Rightarrow> (string \<times> attr_filter) list \<Rightarrow> node \<Rightarrow> bool" where
  "tag_matches name fs (Tag nm ats cs) = (nm = name \<and> list_all (attr_matches ats) fs)"
| "tag_matches name fs (NavigableString s) = False"

definition find_all :: "node \<Rightarrow> string \<Rightarrow> (string \<times> attr_filter) list \<Rightarrow> node list" where
  "find_all n name fs = filter (tag_matches name fs) (descendants n)"

text \<open>\<^verbatim>\<open>find\<close> returns the first match, or \<^verbatim>\<open>None\<close>.\<close>

definition find_tag :: "node \<Rightarrow> string \<Rightarrow> (string \<times> attr_filter) list \<Rightarrow> node option" where
  "find_tag n name fs = (case find_all n name fs of [] \<Rightarrow> None | x # xs \<Rightarrow> Some x)"

text \<open>
  A method call on the result of a \<^verbatim>\<open>find\<close>: on \<^verbatim>\<open>None\<close> the attribute lookup raises
  \<^verbatim>\<open>AttributeError\<close>.
\<close>

definition find_on :: "node option \<Rightarrow> string \<Rightarrow> (string \<times> attr_filter) list \<Rightarrow> exn + node option" where
  "find_on r name fs = (case r of None \<Rightarrow> Inl AttributeError | Some n \<Rightarrow> Inr (find_tag n name fs))"

text \<open>\<^verbatim>\<open>tag[key]\<close> raises \<^verbatim>\<open>KeyError\<close> when the attribute is missing.\<close>

fun get_item :: "node \<Rightarrow> string \<Rightarrow> exn + string" where
  "get_item (Tag nm ats cs) k = (case map_of ats k of None \<Rightarrow> Inl KeyError | Some v \<Rightarrow> Inr v)"
| "get_item (NavigableString s) k = Inl TypeError"

text \<open>\<^verbatim>\<open>find(...)[key]\<close>: subscripting \<^verbatim>\<open>None\<close> raises \<^verbatim>\<open>TypeError\<close>.\<close>

definition get_item_on :: "node option \<Rightarrow> string \<Rightarrow> exn + string" where
  "get_item_on r k = (case r of None \<Rightarrow> Inl TypeError | Some n \<Rightarrow> get_item n k)"

fun has_attr :: "node \<Rightarrow> string \<Rightarrow> bool" where
  "has_attr (Tag nm ats cs) k = (map_of ats k \<noteq> None)"
| "has_attr (NavigableString s) k = False"

text \<open>The CSS selector \<^verbatim>\<open>name.cls\<close>: tags of that name with \<open>cls\<close> among their class tokens.\<close>

fun selector_matches :: "string \<Rightarrow> string \<Rightarrow> node \<Rightarrow> bool" where
  "selector_matches name cls (Tag nm ats cs) =
     (nm = name \<and> (case map_of ats ''class'' of None \<Rightarrow> False | Some v \<Rightarrow> cls \<in> set (tokens v)))"
| "selector_matches name cls (NavigableString s) = False"

definition select :: "node \<Rightarrow> string \<Rightarrow> string \<Rightarrow> node list" where
  "select n name cls = filter (selector_matches name cls) (descendants n)"

text \<open>
  \<^verbatim>\<open>get_text(sep, strip=True)\<close>: the strings below the tag, each stripped, the empty ones
  dropped, joined by \<open>sep\<close>.
\<close>

fun node_strings :: "node list \<Rightarrow> string list" where
  "node_strings [] = []"
| "node_strings (Tag nm ats cs # ns) = node_strings ns"
| "node_strings (NavigableString s # ns) = s # node_strings ns"

definition get_text :: "string \<Rightarrow> node \<Rightarrow> string" where
  "get_text sep n = join sep (filter (\<lambda>s. s \<noteq> []) (map strip (node_strings (descendants n))))"

section \<open>The world outside the adapters\<close>

text \<open>
  What the adapters call but do not define:
  \<^item> \<open>request\<close> is \<^verbatim>\<open>NewspaperManager._request\<close>: it yields the HTML of a page or \<^verbatim>\<open>None\<close>, or
    raises;
  \<^item> \<open>html_parser\<close> is \<^verbatim>\<open>BeautifulSoup(html, "html.parser")\<close> on a string;
  \<^item> \<open>base_url\<close> is the binding of the global name \<^verbatim>\<open>base_url\<close> that
    \<^verbatim>\<open>handelsblatt.py\<close> reads. The module neither defines nor imports it, so in the module
    as it stands the name is unbound (\<open>None\<close>) and reading it raises \<^verbatim>\<open>NameError\<close>;
  \<^item> \<open>to_datetime_coerce\<close> is \<^verbatim>\<open>pd.to_datetime(s, errors='coerce', utc=True)\<close>: an instant
    in UTC, or \<^verbatim>\<open>NaT\<close> (\<open>None\<close>);
  \<^item> \<open>to_datetime_format\<close> is \<^verbatim>\<open>pd.to_datetime(s, format=fmt, utc=True)\<close>, which may also
    raise.
\<close>

record world =
  request :: "string \<Rightarrow> exn + string option"
  html_parser :: "string \<Rightarrow> exn + node"
  base_url :: "string option"
  to_datetime_coerce :: "string \<Rightarrow> int option"
  to_datetime_format :: "string \<Rightarrow> string \<Rightarrow> exn + int option"

text \<open>\<^verbatim>\<open>BeautifulSoup(html, "html.parser")\<close> where \<open>html\<close> may be \<^verbatim>\<open>None\<close>: \<^verbatim>\<open>len(None)\<close> raises.\<close>

definition BeautifulSoup :: "world \<Rightarrow> string option \<Rightarrow> exn + node" where
  "BeautifulSoup w html = (case html of None \<Rightarrow> Inl TypeError | Some h \<Rightarrow> html_parser w h)"

section \<open>Classification and plain-HTTP retrieval: \<^verbatim>\<open>_soup_get_html\<close>\<close>

type_synonym soup_result = "(exn + (string option \<times> bool)) \<times> event list"

subsection \<open>Handelsblatt\<close>


subsection \<open>Welt\<close>

text \<open>The lookup inside the \<^verbatim>\<open>try\<close> block: the premium link of the article header.\<close>

definition welt_premium_icon :: "node \<Rightarrow> exn + node option" where
  "welt_premium_icon soup =
     find_on (find_tag soup ''header'' [(''class'', Equals ''r-header r-header--default'')])
       ''a'' [(''class'', Equals ''is-link c-article-header__premium'')]"

definition welt_soup_get_html :: "world \<Rightarrow> string \<Rightarrow> soup_result" where
  "welt_soup_get_html w url =
     (case request w url of
        Inl e \<Rightarrow> (Inl e, [Request url])
      | Inr None \<Rightarrow> (Inr (None, False), [Request url])
      | Inr (Some html) \<Rightarrow>
          if html = [] then (Inr (None, False), [Request url])
          else
            (case html_parser w html of
               Inl e \<Rightarrow> (Inl e, [Request url])
             | Inr soup \<Rightarrow>
                 (case welt_premium_icon soup of
                    Inr premium_icon \<Rightarrow> (Inr (Some html, \<not> (premium_icon \<noteq> None)), [Request url])
                  | Inl e \<Rightarrow>
                      if e = AttributeError
                      then (Inr (None, False),
                            [Request url,
                             Log WARNING (''Could not identify if article is premium: '' @ url @ ''.'')])
                      else (Inl e, [Request url]))))"

subsection \<open>Zeit\<close>

definition zeit_premium_icon :: "node \<Rightarrow> exn + node option" where
  "zeit_premium_icon soup = Inr (find_tag soup ''aside'' [(''id'', Equals ''paywall'')])"

text \<open>
  The outer \<^verbatim>\<open>except TypeError\<close> of the method: a \<^verbatim>\<open>TypeError\<close> raised anywhere in the body,
  the recursive call included, prints the traceback and yields \<^verbatim>\<open>(None, False)\<close>.
\<close>

definition except_TypeError :: "soup_result \<Rightarrow> soup_result" where
  "except_TypeError r =
     (case r of
        (Inl e, ev) \<Rightarrow> if e = TypeError then (Inr (None, False), ev @ [PrintTraceback]) else (Inl e, ev)
      | (Inr v, ev) \<Rightarrow> (Inr v, ev))"

text \<open>
  The method calls itself on \<^verbatim>\<open>url + '/komplettansicht'\<close> while the fetched page links to
  that address, so it need not return: \<open>None\<close> is the run that never does. The handler of the
  inner \<^verbatim>\<open>except Exception\<close> reads the undefined name \<^verbatim>\<open>info\<close>, which raises
  \<^verbatim>\<open>NameError\<close>.
\<close>

partial_function (option) zeit_soup_get_html :: "world \<Rightarrow> string \<Rightarrow> soup_result option" where
  "zeit_soup_get_html w url =
     (case request w url of
        Inl e \<Rightarrow> Some (except_TypeError (Inl e, [Request url]))
      | Inr None \<Rightarrow> Some (Inr (None, False), [Request url, Log WARNING (''Problem requesting: '' @ url)])
      | Inr (Some html) \<Rightarrow>
          (case html_parser w html of
             Inl e \<Rightarrow> Some (Inl NameError, [Request url])
           | Inr soup \<Rightarrow>
               (case find_tag soup ''a'' [(''href'', Equals (url @ ''/komplettansicht''))] of
                  Some komplettansicht_link \<Rightarrow>
                    Option.bind (zeit_soup_get_html w (url @ ''/komplettansicht''))
                      (\<lambda>r. Some (except_TypeError (fst r, Request url # snd r)))
                | None \<Rightarrow>
                    (case zeit_premium_icon soup of
                       Inr premium_icon \<Rightarrow> Some (Inr (Some html, \<not> (premium_icon \<noteq> None)), [Request url])
                     | Inl e \<Rightarrow>
                         if e = AttributeError
                         then Some (Inr (None, False),
                                    [Request url,
                                     Log WARNING (''Could not identify if article is premium: '' @ url @ ''.'')])
                         else Some (except_TypeError (Inl e, [Request url]))))))"

text \<open>The number of \<^verbatim>\<open>_request\<close> calls of a run: every invocation of the method makes one.\<close>

definition requests :: "event list \<Rightarrow> nat" where
  "requests ev = length (filter (\<lambda>e. case e of Request u \<Rightarrow> True | _ \<Rightarrow> False) ev)"

section \<open>Indexing: \<^verbatim>\<open>_get_articles_by_date\<close> and \<^verbatim>\<open>_get_articles_by_editions\<close>\<close>

text \<open>
  What an indexing method returns: Python is dynamically typed, and the methods return
  either one list of urls or a tuple of a list of urls and a list of publication dates.
\<close>

datatype index_result = Url_list "string list" | Url_date_lists "string list" "pub_date list"

type_synonym index_run = "(exn + index_result) \<times> event list"

text \<open>A list comprehension whose element expression may raise: the first exception ends it.\<close>

fun collect :: "('a \<Rightarrow> exn + 'b) \<Rightarrow> 'a list \<Rightarrow> exn + 'b list" where
  "collect f [] = Inr []"
| "collect f (x # xs) =
     (case f x of
        Inl e \<Rightarrow> Inl e
      | Inr y \<Rightarrow> (case collect f xs of Inl e \<Rightarrow> Inl e | Inr ys \<Rightarrow> Inr (y # ys)))"

text \<open>
  \<^verbatim>\<open>list(set(urls))\<close>: the elements of \<open>urls\<close>, each once. Python leaves the order of a set
  unspecified; the model fixes the order of \<open>remdups\<close>.
\<close>

definition list_set :: "string list \<Rightarrow> string list" where
  "list_set urls = remdups urls"

subsection \<open>Welt\<close>

definition welt_index_url :: "date \<Rightarrow> string" where
  "welt_index_url day =
     ''https://www.welt.de/schlagzeilen/nachrichten-vom-''
       @ pad2 (d_day day) @ ''-'' @ pad2 (d_month day) @ ''-'' @ str_nat (d_year day) @ ''.html''"

definition welt_url :: "node \<Rightarrow> exn + string" where
  "welt_url a =
     (case get_item a ''href'' of
        Inl e \<Rightarrow> Inl e
      | Inr href \<Rightarrow> Inr (if \<not> startswith href ''http'' then ''https://www.welt.de'' @ href else href))"

definition from_pandas :: "int option \<Rightarrow> pub_date" where
  "from_pandas r = (case r of None \<Rightarrow> NaT | Some t \<Rightarrow> Timestamp t (Some UTC))"

definition welt_formats :: "string list" where
  "welt_formats = [''%d.%m.%Y | %H:%M'', ''%d.%m.%Y %H:%M'', ''%B %d %Y | %I:%M %p'', ''%B %d %Y %I:%M %p'']"

text \<open>
  The loop over the known formats: an exception moves on to the next format, a result
  (which may be \<^verbatim>\<open>NaT\<close>) ends the loop; with no format left \<open>parsed\<close> is still \<^verbatim>\<open>NaT\<close>.
\<close>

fun try_formats :: "world \<Rightarrow> string \<Rightarrow> string list \<Rightarrow> int option" where
  "try_formats w text [] = None"
| "try_formats w text (fmt # fmts) =
     (case to_datetime_format w text fmt of
        Inl e \<Rightarrow> try_formats w text fmts
      | Inr parsed \<Rightarrow> parsed)"

definition welt_parse_text :: "world \<Rightarrow> string \<Rightarrow> pub_date" where
  "welt_parse_text w text0 =
     (if text0 = [] then NaT
      else
        (let text = strip (replace '','' [] (replace ''Uhr'' [] text0));
             parsed = try_formats w text welt_formats
         in if parsed = None then from_pandas (to_datetime_coerce w text) else from_pandas parsed))"

text \<open>The body of the loop over the articles: the publication date appended for one article.\<close>

definition welt_pub_date :: "world \<Rightarrow> node \<Rightarrow> exn + pub_date" where
  "welt_pub_date w art =
     (case find_tag art ''span'' [(''class'', Equals ''c-teaser__date'')] of
        Some time_tag \<Rightarrow>
          if has_attr time_tag ''datetime''
          then (case get_item time_tag ''datetime'' of
                  Inl e \<Rightarrow> Inl e
                | Inr v \<Rightarrow> Inr (from_pandas (to_datetime_coerce w v)))
          else Inr (welt_parse_text w (get_text [] time_tag))
      | None \<Rightarrow> Inr (welt_parse_text w (get_text '' '' art)))"

text \<open>
  \<^verbatim>\<open>df.drop_duplicates(subset="url")\<close>: of the rows with the same url the first is kept, in
  the order of the frame. \<open>seen\<close> holds the urls of the rows kept so far.
\<close>

fun drop_duplicates_from :: "string list \<Rightarrow> (string \<times> 'a) list \<Rightarrow> (string \<times> 'a) list" where
  "drop_duplicates_from seen [] = []"
| "drop_duplicates_from seen (row # rows) =
     (if fst row \<in> set seen then drop_duplicates_from seen rows
      else row # drop_duplicates_from (fst row # seen) rows)"

definition drop_duplicates :: "(string \<times> 'a) list \<Rightarrow> (string \<times> 'a) list" where
  "drop_duplicates rows = drop_duplicates_from [] rows"

text \<open>
  \<^verbatim>\<open>pd.DataFrame\<close> raises \<^verbatim>\<open>ValueError\<close> when its columns differ in length. The final
  \<^verbatim>\<open>pd.to_datetime(df["pub_date"], errors="coerce")\<close> leaves a column of UTC timestamps and
  \<^verbatim>\<open>NaT\<close> as it is.
\<close>

definition welt_get_articles_by_date :: "world \<Rightarrow> date \<Rightarrow> index_run" where
  "welt_get_articles_by_date w day =
     (let url = welt_index_url day in
      case request w url of
        Inl e \<Rightarrow> (Inl e, [Request url])
      | Inr html \<Rightarrow>
          (case BeautifulSoup w html of
             Inl e \<Rightarrow> (Inl e, [Request url])
           | Inr soup \<Rightarrow>
               (let articles = find_all soup ''article'' [(''class'', Equals ''c-teaser c-teaser--archive'')] in
                if articles = []
                then (Inr (Url_date_lists [] []),
                      [Request url,
                       Print (''[INFO] No articles found for ''
                              @ pad2 (d_day day) @ ''-'' @ pad2 (d_month day) @ ''-'' @ str_nat (d_year day))])
                else
                  (case collect welt_url (select soup ''a'' ''c-teaser__headline-link'') of
                     Inl e \<Rightarrow> (Inl e, [Request url])
                   | Inr urls \<Rightarrow>
                       (case collect (welt_pub_date w) articles of
                          Inl e \<Rightarrow> (Inl e, [Request url])
                        | Inr pub_dates \<Rightarrow>
                            if length urls = length pub_dates
                            then (let df = drop_duplicates (zip urls pub_dates)
                                  in (Inr (Url_date_lists (map fst df) (map snd df)), [Request url]))
                            else (Inl ValueError, [Request url]))))))"

subsection \<open>Handelsblatt\<close>

definition dmy :: "date \<Rightarrow> string" where
  "dmy day = pad2 (d_day day) @ ''.'' @ pad2 (d_month day) @ ''.'' @ str_nat (d_year day)"

definition handelsblatt_index_url :: "date \<Rightarrow> string" where
  "handelsblatt_index_url day =
     ''https://archiv.handelsblatt.com/dosearch?explicitSearch=true&q=&x=0&y=0&dbShortcut=HBARCHIV_HANDELSBLATT_NAVIGATION&searchMask=7009&TI%2CUT%2CDZ%2CBT%2COT%2CSL=&KO%2CRU=&AU=&CO%2CC2%2CTA%2CKA%2CVA%2CZ1=&MM%2COW%2CUF%2CMF%2CAO%2CTP%2CVM%2CNN%2CNJ%2CKV%2CZ2%2CSAT-PERSONS.name=&CT=&CT%2CDE%2CZ4%2CKW=&BR%2CGW%2CN1%2CN2%2CNC%2CND%2CSC%2CWZ%2CZ5%2CAI%2CBC%2CKN%2CTN%2CVN%2CK0%2CB4%2CNW%2CVH=&Z3%2CCN%2CCE%2CKC%2CTC%2CVC=&timeFilterType=on&DT_from=''
       @ dmy day @ ''&DT_to='' @ dmy day"

text \<open>Reading the global name \<^verbatim>\<open>base_url\<close> and prepending it.\<close>

definition plus_base_url :: "world \<Rightarrow> string \<Rightarrow> exn + string" where
  "plus_base_url w href = (case base_url w of None \<Rightarrow> Inl NameError | Some b \<Rightarrow> Inr (b @ href))"

text \<open>The loop over the hits of one result page: the urls it appends.\<close>

fun hit_urls :: "world \<Rightarrow> node list \<Rightarrow> exn + string list" where
  "hit_urls w [] = Inr []"
| "hit_urls w (hit # hits) =
     (case find_tag hit ''a'' [(''href'', Present)] of
        None \<Rightarrow> hit_urls w hits
      | Some link_tag \<Rightarrow>
          (case get_item link_tag ''href'' of
             Inl e \<Rightarrow> Inl e
           | Inr href \<Rightarrow>
               if startswith href ''/''
               then (case plus_base_url w href of
                       Inl e \<Rightarrow> Inl e
                     | Inr u \<Rightarrow> (case hit_urls w hits of Inl e \<Rightarrow> Inl e | Inr us \<Rightarrow> Inr (u # us)))
               else hit_urls w hits))"

text \<open>The loop over the pagination links: the urls appended and the requests made.\<close>

fun page_urls :: "world \<Rightarrow> string list \<Rightarrow> (exn + string list) \<times> event list" where
  "page_urls w [] = (Inr [], [])"
| "page_urls w (page_url # rest) =
     (case request w page_url of
        Inl e \<Rightarrow> (Inl e, [Request page_url])
      | Inr html_page \<Rightarrow>
          (case BeautifulSoup w html_page of
             Inl e \<Rightarrow> (Inl e, [Request page_url])
           | Inr soup_page \<Rightarrow>
               (case hit_urls w (find_all soup_page ''div'' [(''class'', Equals ''hit'')]) of
                  Inl e \<Rightarrow> (Inl e, [Request page_url])
                | Inr us \<Rightarrow>
                    (case page_urls w rest of
                       (Inl e, ev) \<Rightarrow> (Inl e, Request page_url # ev)
                     | (Inr vs, ev) \<Rightarrow> (Inr (us @ vs), Request page_url # ev)))))"

text \<open>The pagination block: the links of the pagination element that contain \<^verbatim>\<open>dosearch\<close>.\<close>

definition pagination_urls :: "world \<Rightarrow> node \<Rightarrow> (exn + string list) \<times> event list" where
  "pagination_urls w soup =
     (case find_tag soup ''div'' [(''class'', Equals ''pagination'')] of
        None \<Rightarrow> (Inr [], [])
      | Some pagination \<Rightarrow>
          (case collect (\<lambda>a. get_item a ''href'') (find_all pagination ''a'' [(''href'', Present)]) of
             Inl e \<Rightarrow> (Inl e, [])
           | Inr hrefs \<Rightarrow>
               (case collect (plus_base_url w) (filter (\<lambda>href. contains href ''dosearch'') hrefs) of
                  Inl e \<Rightarrow> (Inl e, [])
                | Inr page_links \<Rightarrow> page_urls w page_links)))"

definition midnight_utc :: "date \<Rightarrow> pub_date" where
  "midnight_utc day = Datetime day 0 0 0 0 (Some UTC)"

definition handelsblatt_finish :: "date \<Rightarrow> string list \<Rightarrow> index_result \<times> event list" where
  "handelsblatt_finish day urls0 =
     (let old_len = length urls0;
          urls = list_set urls0;
          pub_dates = replicate (length urls) (midnight_utc day)
      in (Url_date_lists urls pub_dates,
          if length urls < old_len
          then [Log WARNING (''Removed '' @ str_nat (old_len - length urls) @ '' duplicate urls for ''
                             @ str_nat (d_year day) @ ''-'' @ pad2 (d_month day) @ ''-'' @ pad2 (d_day day) @ ''.'')]
          else []))"

definition handelsblatt_get_articles_by_date :: "world \<Rightarrow> date \<Rightarrow> index_run" where
  "handelsblatt_get_articles_by_date w day =
     (let url = handelsblatt_index_url day in
      case request w url of
        Inl e \<Rightarrow> (Inl e, [Request url])
      | Inr None \<Rightarrow> (Inr (Url_list []), [Request url])
      | Inr (Some html) \<Rightarrow>
          (case html_parser w html of
             Inl e \<Rightarrow> (Inl e, [Request url])
           | Inr soup \<Rightarrow>
               (case hit_urls w (find_all soup ''div'' [(''class'', Equals ''hit'')]) of
                  Inl e \<Rightarrow> (Inl e, [Request url])
                | Inr urls1 \<Rightarrow>
                    (case pagination_urls w soup of
                       (Inl e, ev) \<Rightarrow> (Inl e, Request url # ev)
                     | (Inr urls2, ev) \<Rightarrow>
                         (case handelsblatt_finish day (urls1 @ urls2) of
                            (res, ev') \<Rightarrow> (Inr res, Request url # ev @ ev'))))))"

subsection \<open>Zeit\<close>

definition zeit_index_url :: "int \<Rightarrow> int \<Rightarrow> string" where
  "zeit_index_url year edition = ''https://www.zeit.de/'' @ str_int year @ ''/'' @ fmt_02 edition @ ''/index''"

definition zeit_get_articles_by_editions :: "world \<Rightarrow> int \<Rightarrow> int \<Rightarrow> index_run" where
  "zeit_get_articles_by_editions w year edition =
     (let url = zeit_index_url year edition in
      case request w url of
        Inl e \<Rightarrow> (Inl e, [Request url])
      | Inr None \<Rightarrow> (Inr (Url_list []), [Request url])
      | Inr (Some html) \<Rightarrow>
          (case html_parser w html of
             Inl e \<Rightarrow> (Inl e, [Request url])
           | Inr soup \<Rightarrow>
               (case collect (\<lambda>article. get_item_on (find_tag article ''a'' []) ''href'')
                       (find_all soup ''article'' []) of
                  Inl e \<Rightarrow> (Inl e, [Request url])
                | Inr hrefs \<Rightarrow>
                    (let urls0 = filter (\<lambda>u. startswith u ''https://www.zeit.de/'') hrefs;
                         old_len = length urls0;
                         urls = list_set urls0
                     in (Inr (Url_list urls),
                         [Request url,
                          Log WARNING (''Removed '' @ str_int (int old_len - int (length urls))
                                       @ '' duplicate urls for '' @ str_int year @ ''/'' @ fmt_02 edition @ ''.'')])))))"

text \<open>The urls and the publication dates of a returned value.\<close>

fun result_urls :: "index_result \<Rightarrow> string list" where
  "result_urls (Url_list urls) = urls"
| "result_urls (Url_date_lists urls pub_dates) = urls"

fun result_dates :: "index_result \<Rightarrow> pub_date list" where
  "result_dates (Url_list urls) = []"
| "result_dates (Url_date_lists urls pub_dates) = pub_dates"

text \<open>
  The shape the methods document: a tuple of two lists, one publication date per url.
\<close>

fun is_url_date_pair :: "index_result \<Rightarrow> bool" where
  "is_url_date_pair (Url_list urls) = False"
| "is_url_date_pair (Url_date_lists urls pub_dates) = (length urls = length pub_dates)"

text \<open>
  An absolute \<^verbatim>\<open>http\<close> or \<^verbatim>\<open>https\<close> url: the scheme, \<^verbatim>\<open>://\<close>, and a non-empty host before the
  path.
\<close>

definition host_of :: "string \<Rightarrow> string option" where
  "host_of u =
     (if startswith u ''https://'' then Some (takeWhile (\<lambda>c. c \<noteq> CHR ''/'') (drop 8 u))
      else if startswith u ''http://'' then Some (takeWhile (\<lambda>c. c \<noteq> CHR ''/'') (drop 7 u))
      else None)"

definition absolute_url :: "string \<Rightarrow> bool" where
  "absolute_url u = (case host_of u of None \<Rightarrow> False | Some h \<Rightarrow> h \<noteq> [])"

section \<open>The browser session (Selenium)\<close>

text \<open>
  The adapters drive the browser through \<^verbatim>\<open>self.selenium_driver\<close>. A call of the driver
  either completes or raises. \<open>WaitPresence t by s\<close> is
  \<^verbatim>\<open>WebDriverWait(x, t).until(ec.presence_of_element_located((by, s)))\<close>, \<open>WaitClickable\<close> the
  same with \<^verbatim>\<open>ec.element_to_be_clickable\<close>; \<open>SendKeys\<close> and \<open>Click\<close> act on the element the
  preceding call returned; \<open>Sleep n\<close> is \<^verbatim>\<open>time.sleep(n)\<close>, which never raises.
\<close>

datatype By = NAME | CSS_SELECTOR | XPATH

datatype call =
    Get string
  | WaitPresence nat By string
  | WaitClickable nat By string
  | FindElement By string
  | SendKeys string
  | Click
  | SwitchToFrame
  | SwitchToDefaultContent
  | Sleep nat

text \<open>
  The browser and the site behind it are not part of the adapters: \<open>outcome d k c\<close> says
  whether the call \<open>c\<close>, made as the \<open>k\<close>-th call of a method, raises, and
  \<open>page_source d tr\<close> is the value of \<^verbatim>\<open>driver.page_source\<close> after the calls \<open>tr\<close>.
\<close>

record driver =
  outcome :: "nat \<Rightarrow> call \<Rightarrow> exn option"
  page_source :: "call list \<Rightarrow> string"

type_synonym run = "exn option \<times> call list"

text \<open>
  A straight-line sequence of calls: it stops at the first call that raises. The result is
  the exception, if any, and the calls made (the raising one included).
\<close>

definition call_outcome :: "driver \<Rightarrow> nat \<Rightarrow> call \<Rightarrow> exn option" where
  "call_outcome d k c = (case c of Sleep n \<Rightarrow> None | _ \<Rightarrow> outcome d k c)"

fun run_calls :: "driver \<Rightarrow> nat \<Rightarrow> call list \<Rightarrow> run" where
  "run_calls d k [] = (None, [])"
| "run_calls d k (c # cs) =
     (case call_outcome d k c of
        Some e \<Rightarrow> (Some e, [c])
      | None \<Rightarrow> (case run_calls d (Suc k) cs of (r, tr) \<Rightarrow> (r, c # tr)))"

text \<open>More calls after a run, outside any \<^verbatim>\<open>try\<close>: a pending exception skips them.\<close>

definition then_calls :: "driver \<Rightarrow> run \<Rightarrow> call list \<Rightarrow> run" where
  "then_calls d r cs =
     (case r of
        (Some e, tr) \<Rightarrow> (Some e, tr)
      | (None, tr) \<Rightarrow> (case run_calls d (length tr) cs of (r', tr') \<Rightarrow> (r', tr @ tr')))"

text \<open>The block \<^verbatim>\<open>try: cs  except x: pass\<close> after a run.\<close>

definition try_pass :: "driver \<Rightarrow> exn \<Rightarrow> run \<Rightarrow> call list \<Rightarrow> run" where
  "try_pass d x r cs =
     (case r of
        (Some e, tr) \<Rightarrow> (Some e, tr)
      | (None, tr) \<Rightarrow>
          (case run_calls d (length tr) cs of
             (None, tr') \<Rightarrow> (None, tr @ tr')
           | (Some e, tr') \<Rightarrow> if e = x then (None, tr @ tr') else (Some e, tr @ tr')))"

type_synonym login_result = "(exn + bool) \<times> call list \<times> event list"

text \<open>
  The final block of every login method, after a run:
  \<^verbatim>\<open>try: cs; log.info(ok); return True  except x: log(failed); return False\<close>.
\<close>

definition check_login :: "driver \<Rightarrow> exn \<Rightarrow> run \<Rightarrow> call list \<Rightarrow> string \<Rightarrow> event \<Rightarrow> login_result" where
  "check_login d x r cs ok failed =
     (case r of
        (Some e, tr) \<Rightarrow> (Inl e, tr, [])
      | (None, tr) \<Rightarrow>
          (case run_calls d (length tr) cs of
             (None, tr') \<Rightarrow> (Inr True, tr @ tr', [Log INFO ok])
           | (Some e, tr') \<Rightarrow>
               if e = x then (Inr False, tr @ tr', [failed]) else (Inl e, tr @ tr', [])))"

subsection \<open>Welt\<close>

definition welt_login_calls :: "string \<Rightarrow> string \<Rightarrow> call list" where
  \<open>welt_login_calls username password =
     [Get ''https://lo.la.welt.de/login'',
      WaitPresence 10 NAME ''username'',
      FindElement NAME ''username'', SendKeys username,
      FindElement NAME ''password'', SendKeys password,
      FindElement CSS_SELECTOR ''button[type="submit"]'', Click,
      Get ''https://www.welt.de/'',
      WaitPresence 10 XPATH ''//iframe[@title="SP Consent Message"]'',
      SwitchToFrame,
      WaitPresence 10 CSS_SELECTOR ''button[title="Alle akzeptieren"]'',
      FindElement CSS_SELECTOR ''button[title="Alle akzeptieren"]'', Click]\<close>

definition welt_check_calls :: "call list" where
  \<open>welt_check_calls =
     [Get ''https://www.welt.de/meinewelt/'',
      WaitPresence 10 CSS_SELECTOR ''div[data-component-name="home"]'',
      FindElement CSS_SELECTOR ''div[data-component-name="home"]'',
      WaitPresence 10 CSS_SELECTOR ''div[name="greeting"]'',
      Get ''https://www.welt.de'']\<close>

text \<open>The part of the method before its final \<^verbatim>\<open>try\<close>.\<close>

definition welt_login_steps :: "driver \<Rightarrow> string \<Rightarrow> string \<Rightarrow> run" where
  "welt_login_steps d username password = run_calls d 0 (welt_login_calls username password)"

definition welt_selenium_login :: "driver \<Rightarrow> string \<Rightarrow> string \<Rightarrow> login_result" where
  "welt_selenium_login d username password =
     check_login d NoSuchElementException
       (welt_login_steps d username password)
       welt_check_calls
       ''Logged in to Welt Plus.''
       (Log WARNING ''Login to Welt Plus failed.'')"

subsection \<open>Zeit\<close>

definition zeit_login_calls :: "string \<Rightarrow> string \<Rightarrow> call list" where
  \<open>zeit_login_calls username password =
     [Get ''https://meine.zeit.de/anmelden'',
      FindElement XPATH ''//input[@type="email"]'', SendKeys username,
      FindElement XPATH ''//input[@type="password"]'', SendKeys password,
      FindElement XPATH ''//input[@type="submit"]'', Click,
      WaitClickable 60 XPATH ''//*[@id="kc-login"]'',
      Click,
      Get ''https://www.zeit.de/index'',
      WaitPresence 20 XPATH ''//iframe[@title="Consent Message"]'',
      SwitchToFrame,
      WaitClickable 20 XPATH ''//button[contains(text(), 'Agree and continue')]'',
      Click,
      SwitchToDefaultContent]\<close>

definition zeit_check_calls :: "call list" where
  \<open>zeit_check_calls = [WaitPresence 10 XPATH ''//div[@data-render="dashboard"]'']\<close>

definition zeit_login_steps :: "driver \<Rightarrow> string \<Rightarrow> string \<Rightarrow> run" where
  "zeit_login_steps d username password = run_calls d 0 (zeit_login_calls username password)"

definition zeit_selenium_login :: "driver \<Rightarrow> string \<Rightarrow> string \<Rightarrow> login_result" where
  "zeit_selenium_login d username password =
     check_login d TimeoutException
       (zeit_login_steps d username password)
       zeit_check_calls
       ''Logged in to Zeit Plus.''
       (Log ERROR ''Login to Zeit Plus failed.'')"

text \<open>
  The optional override \<^verbatim>\<open>_selenium_get_html\<close>: the result is the page source or the
  exception, with the calls made.
\<close>

definition komplettansicht_link :: "string \<Rightarrow> call" where
  \<open>komplettansicht_link url = FindElement XPATH (''//a[@href="'' @ url @ ''/komplettansicht"]'')\<close>

definition zeit_selenium_get_html :: "driver \<Rightarrow> string \<Rightarrow> (exn + string) \<times> call list" where
  \<open>zeit_selenium_get_html d url =
     (case try_pass d NoSuchElementException (run_calls d 0 [Get url])
             [komplettansicht_link url, Get (url @ ''/komplettansicht'')] of
        (Some e, tr) \<Rightarrow> (Inl e, tr)
      | (None, tr) \<Rightarrow> (Inr (page_source d tr), tr))\<close>

subsection \<open>Handelsblatt\<close>

definition handelsblatt_cookie_calls :: "call list" where
  \<open>handelsblatt_cookie_calls =
     [Sleep 1,
      WaitPresence 10 XPATH ''//iframe[@title="Iframe title"]'',
      SwitchToFrame,
      WaitClickable 10 XPATH ''//button[contains(text(), 'ZUSTIMMEN')]'',
      Click]\<close>

definition handelsblatt_open_calls :: "call list" where
  \<open>handelsblatt_open_calls =
     [Get ''https://www.handelsblatt.com/ '',
      WaitPresence 10 XPATH ''//iframe[@title="Iframe title"]'',
      SwitchToFrame,
      WaitClickable 10 XPATH ''//button[contains(text(), 'ZUSTIMMEN')]'',
      Click,
      WaitClickable 10 XPATH ''//a[contains(text(), 'Login')]'',
      Click]\<close>

definition handelsblatt_form_calls :: "string \<Rightarrow> string \<Rightarrow> call list" where
  \<open>handelsblatt_form_calls username password =
     [Sleep 1,
      FindElement XPATH ''//input[@type="email"]'', SendKeys username,
      Sleep 1,
      FindElement XPATH ''//input[@type="password"]'', SendKeys password,
      Sleep 1,
      FindElement XPATH ''//button[@type="submit"]'', Click]\<close>

definition handelsblatt_check_calls :: "string \<Rightarrow> call list" where
  "handelsblatt_check_calls username =
     [WaitPresence 10 XPATH (''//span[contains(text(), '' @ [CHR 0x27] @ username @ [CHR 0x27] @ '')]'')]"

text \<open>
  The part of the method before its final \<^verbatim>\<open>try\<close>: the cookie banner and the login link,
  the optional cookie banner of the login page, the form, and the optional cookie banner
  again.
\<close>

definition handelsblatt_login_steps :: "driver \<Rightarrow> string \<Rightarrow> string \<Rightarrow> run" where
  "handelsblatt_login_steps d username password =
     (let r1 = run_calls d 0 handelsblatt_open_calls;
          r2 = try_pass d TimeoutException r1 handelsblatt_cookie_calls;
          r3 = then_calls d r2 (handelsblatt_form_calls username password)
      in try_pass d TimeoutException r3 handelsblatt_cookie_calls)"

definition handelsblatt_selenium_login :: "driver \<Rightarrow> string \<Rightarrow> string \<Rightarrow> login_result" where
  "handelsblatt_selenium_login d username password =
     check_login d TimeoutException
       (handelsblatt_login_steps d username password)
       (handelsblatt_check_calls username)
       ''Logged in to Handelsblatt.''
       (Log ERROR ''Login to Handelsblatt failed.'')"

section \<open>The engine's split of classified articles\<close>


section \<open>Conditions and example inputs\<close>

text \<open>
  The page fetched at \<open>url\<close> links to \<^verbatim>\<open>url + '/komplettansicht'\<close>: the condition under
  which Zeit's \<^verbatim>\<open>_soup_get_html\<close> calls itself.
\<close>

definition links_to_komplettansicht :: "world \<Rightarrow> string \<Rightarrow> bool" where
  "links_to_komplettansicht w url =
     (case request w url of
        Inl e \<Rightarrow> False
      | Inr None \<Rightarrow> False
      | Inr (Some html) \<Rightarrow>
          (case html_parser w html of
             Inl e \<Rightarrow> False
           | Inr soup \<Rightarrow> find_tag soup ''a'' [(''href'', Equals (url @ ''/komplettansicht''))] \<noteq> None))"

text \<open>
  A world for the examples: \<open>pages\<close> gives the HTML behind a url, \<open>parse\<close> the document of
  an HTML string; \<^verbatim>\<open>base_url\<close> is unbound, as in the module, and pandas parses nothing.
\<close>

definition example_world :: "(string \<Rightarrow> string option) \<Rightarrow> (string \<Rightarrow> node) \<Rightarrow> world" where
  "example_world pages parse =
     \<lparr>request = (\<lambda>u. Inr (pages u)), html_parser = (\<lambda>h. Inr (parse h)), base_url = None,
      to_datetime_coerce = (\<lambda>s. None), to_datetime_format = (\<lambda>s fmt. Inl ValueError)\<rparr>"

text \<open>A Welt article page with the premium link in its header.\<close>

definition welt_premium_page :: node where
  "welt_premium_page =
     Tag ''[document]'' []
       [Tag ''header'' [(''class'', ''r-header r-header--default'')]
          [Tag ''a'' [(''class'', ''is-link c-article-header__premium''), (''href'', ''/plus'')] []],
        Tag ''p'' [] [NavigableString ''text'']]"

text \<open>A Zeit article page with the paywall element.\<close>

definition zeit_paywall_page :: node where
  "zeit_paywall_page =
     Tag ''[document]'' []
       [Tag ''p'' [] [NavigableString ''teaser''],
        Tag ''aside'' [(''id'', ''paywall'')] []]"

text \<open>A page without the Welt article header.\<close>

definition no_header_page :: node where
  "no_header_page = Tag ''[document]'' [] [Tag ''p'' [] [NavigableString ''text'']]"

text \<open>A Zeit article in two pages, with its one-page view.\<close>

definition paginated_pages :: "string \<Rightarrow> string option" where
  "paginated_pages u =
     (if u = ''https://www.zeit.de/a'' then Some ''first''
      else if u = ''https://www.zeit.de/a/komplettansicht'' then Some ''full''
      else None)"

definition paginated_parse :: "string \<Rightarrow> node" where
  "paginated_parse h =
     (if h = ''first''
      then Tag ''[document]'' []
             [Tag ''p'' [] [NavigableString ''page 1''],
              Tag ''a'' [(''href'', ''https://www.zeit.de/a/komplettansicht'')]
                [NavigableString ''Auf einer Seite lesen'']]
      else Tag ''[document]'' [] [Tag ''p'' [] [NavigableString ''page 1 page 2'']])"

text \<open>
  A url that Handelsblatt's indexing builds: the binding of \<^verbatim>\<open>base_url\<close> followed by an href
  that starts with a slash.
\<close>

definition from_base :: "world \<Rightarrow> string \<Rightarrow> bool" where
  "from_base w u = (\<exists>b href. base_url w = Some b \<and> u = b @ href \<and> startswith href ''/'')"

text \<open>
  Example index pages: a Welt archive page of teasers (the headline link, then the date
  elements given), a Handelsblatt result page with one hit listed twice and one hit with an
  absolute href, and a Zeit edition index with one article listed twice and one relative
  href. \<open>pandas_world\<close> binds \<^verbatim>\<open>base_url\<close> as given, serves \<open>page\<close> for every url, and parses
  one ISO timestamp.
\<close>

definition welt_teaser :: "string \<Rightarrow> node list \<Rightarrow> node" where
  "welt_teaser href date =
     Tag ''article'' [(''class'', ''c-teaser c-teaser--archive'')]
       (Tag ''a'' [(''class'', ''is-link c-teaser__headline-link is-teaser-link''), (''href'', href)] []
        # date)"

definition welt_time_tag :: node where
  "welt_time_tag =
     Tag ''span'' [(''class'', ''c-teaser__date''), (''datetime'', ''2024-01-05T10:30:00Z'')]
       [NavigableString ''05.01.2024 | 10:30 Uhr'']"

definition welt_archive_page :: "node list \<Rightarrow> node" where
  "welt_archive_page teasers = Tag ''[document]'' [] [Tag ''ul'' [] teasers]"

definition pandas_world :: "string option \<Rightarrow> node \<Rightarrow> world" where
  "pandas_world base page =
     \<lparr>request = (\<lambda>u. Inr (Some ''<html>'')), html_parser = (\<lambda>h. Inr page), base_url = base,
      to_datetime_coerce = (\<lambda>s. if s = ''2024-01-05T10:30:00Z'' then Some 1704450600 else None),
      to_datetime_format = (\<lambda>s fmt. Inl ValueError)\<rparr>"

definition jan5 :: date where
  "jan5 = \<lparr>d_year = 2024, d_month = 1, d_day = 5\<rparr>"

definition handelsblatt_hit :: "string \<Rightarrow> node" where
  "handelsblatt_hit href =
     Tag ''div'' [(''class'', ''hit'')] [Tag ''a'' [(''href'', href)] [NavigableString ''Titel'']]"

definition handelsblatt_result_page :: node where
  "handelsblatt_result_page =
     Tag ''[document]'' []
       [handelsblatt_hit ''/document/HB__1'',
        handelsblatt_hit ''https://www.example.org/x'',
        handelsblatt_hit ''/document/HB__1'']"

definition zeit_index_page :: node where
  "zeit_index_page =
     Tag ''[document]'' []
       [Tag ''article'' [] [Tag ''a'' [(''href'', ''https://www.zeit.de/2024/02/x'')] []],
        Tag ''article'' [] [Tag ''a'' [(''href'', ''/campus/y'')] []],
        Tag ''article'' [] [Tag ''a'' [(''href'', ''https://www.zeit.de/2024/02/x'')] []]]"

text \<open>
  Example browsers. The page source is the address of the last page the session navigated
  to, in \<^verbatim>\<open><html>\<close> tags. In \<open>calm_driver\<close> every call completes; in \<open>failing_driver bad e\<close>
  the call \<open>bad\<close> raises \<open>e\<close>; in \<open>no_banner_driver\<close> the cookie banner shows on the main page
  (call 1) and never again.
\<close>

definition location :: "call list \<Rightarrow> string" where
  "location tr = foldl (\<lambda>u c. case c of Get v \<Rightarrow> v | _ \<Rightarrow> u) [] tr"

definition failing_driver :: "call \<Rightarrow> exn \<Rightarrow> driver" where
  "failing_driver bad e =
     \<lparr>outcome = (\<lambda>k c. if c = bad then Some e else None),
      page_source = (\<lambda>tr. ''<html>'' @ location tr @ ''</html>'')\<rparr>"

definition calm_driver :: driver where
  "calm_driver =
     \<lparr>outcome = (\<lambda>k c. None), page_source = (\<lambda>tr. ''<html>'' @ location tr @ ''</html>'')\<rparr>"

definition no_banner_driver :: driver where
  \<open>no_banner_driver =
     \<lparr>outcome = (\<lambda>k c. if 7 \<le> k \<and> c = WaitPresence 10 XPATH ''//iframe[@title="Iframe title"]''
                         then Some TimeoutException else None),
      page_source = (\<lambda>tr. ''<html>'' @ location tr @ ''</html>'')\<rparr>\<close>

section \<open>Properties of \<^verbatim>\<open>_soup_get_html\<close>\<close>



lemmas bs_defs = find_on_def find_tag_def find_all_def tokens_def is_space_def

text \<open>
  C1. The claim: on a page that was fetched and parsed, \<open>is_premium\<close> is true exactly when
  the page carries the site's premium marker; the docstrings of the methods say the same
  (\<^verbatim>\<open>bool: True if the article is premium content, False otherwise\<close>). The code returns
  \<^verbatim>\<open>not bool(premium_icon)\<close>: on a Welt page with the premium link in its header, and on a
  Zeit page with the paywall element, the second component of the result is \<open>False\<close>, and
  the HTML is returned with it.
\<close>

theorem premium_marker_yields_False:
  "welt_soup_get_html (example_world (\<lambda>u. Some ''<html>'') (\<lambda>h. welt_premium_page)) url
     = (Inr (Some ''<html>'', False), [Request url])
   \<and> zeit_soup_get_html (example_world (\<lambda>u. Some ''<html>'') (\<lambda>h. zeit_paywall_page)) url
     = Some (Inr (Some ''<html>'', False), [Request url])"
proof
  show "welt_soup_get_html (example_world (\<lambda>u. Some ''<html>'') (\<lambda>h. welt_premium_page)) url
     = (Inr (Some ''<html>'', False), [Request url])"
    by (simp add: welt_soup_get_html_def example_world_def welt_premium_page_def
        welt_premium_icon_def bs_defs)
  show "zeit_soup_get_html (example_world (\<lambda>u. Some ''<html>'') (\<lambda>h. zeit_paywall_page)) url
     = Some (Inr (Some ''<html>'', False), [Request url])"
    by (subst zeit_soup_get_html.simps)
       (simp add: example_world_def zeit_paywall_page_def zeit_premium_icon_def bs_defs)
qed

text \<open>
  On every Welt page that is fetched and parsed and has the article header, the second
  component is the negation of "the premium link is there".
\<close>

lemma welt_flag_is_negated:
  assumes "request w url = Inr (Some html)" and "html \<noteq> []"
    and "html_parser w html = Inr soup"
    and "welt_premium_icon soup = Inr premium_icon"
  shows "welt_soup_get_html w url = (Inr (Some html, premium_icon = None), [Request url])"
  using assms by (simp add: welt_soup_get_html_def)

text \<open>
  C3. When the paywall-marker lookup raises \<^verbatim>\<open>AttributeError\<close>, classify-and-fetch returns
  \<^verbatim>\<open>(None, False)\<close> and logs a warning. In Welt's method the lookup raises when the page has
  no article header. In Zeit's method the lookup is a single \<^verbatim>\<open>find\<close> on the parsed
  document, which never raises, so there is no such url.
\<close>

theorem classification_error_logged:
  assumes "request w url = Inr (Some html)" and "html \<noteq> []"
    and "html_parser w html = Inr soup"
    and "welt_premium_icon soup = Inl AttributeError"
  shows "welt_soup_get_html w url
           = (Inr (None, False),
              [Request url, Log WARNING (''Could not identify if article is premium: '' @ url @ ''.'')])
         \<and> zeit_premium_icon soup' \<noteq> Inl AttributeError"
  using assms by (simp add: welt_soup_get_html_def zeit_premium_icon_def)

theorem classification_error_logged_witness:
  "welt_premium_icon no_header_page = Inl AttributeError
   \<and> welt_soup_get_html (example_world (\<lambda>u. Some ''<html>'') (\<lambda>h. no_header_page)) ''https://www.welt.de/a''
       = (Inr (None, False),
          [Request ''https://www.welt.de/a'',
           Log WARNING ''Could not identify if article is premium: https://www.welt.de/a.''])"
proof -
  have h: "welt_premium_icon no_header_page = Inl AttributeError"
    by (simp add: welt_premium_icon_def no_header_page_def bs_defs)
  show ?thesis
    using h classification_error_logged
      [of "example_world (\<lambda>u. Some ''<html>'') (\<lambda>h. no_header_page)" "''https://www.welt.de/a''"
          "''<html>''" no_header_page]
    by (simp add: example_world_def)
qed

subsection \<open>Termination of Zeit's recursion\<close>

lemma requests_Cons: "requests (Request u # ev) = Suc (requests ev)"
  by (simp add: requests_def)

lemma requests_except_TypeError: "requests (snd (except_TypeError r)) = requests (snd r)"
  by (cases r) (auto simp: except_TypeError_def requests_def split: sum.splits)

lemma zeit_no_link:
  assumes "\<not> links_to_komplettansicht w url"
  shows "\<exists>r. zeit_soup_get_html w url = Some r \<and> requests (snd r) = 1"
  using assms
  by (subst zeit_soup_get_html.simps)
     (auto simp: links_to_komplettansicht_def zeit_premium_icon_def except_TypeError_def
         requests_def
       split: sum.splits option.splits)

lemma zeit_link:
  assumes "links_to_komplettansicht w url"
  shows "zeit_soup_get_html w url =
           Option.bind (zeit_soup_get_html w (url @ ''/komplettansicht''))
             (\<lambda>r. Some (except_TypeError (fst r, Request url # snd r)))"
  using assms
  by (subst zeit_soup_get_html.simps)
     (auto simp: links_to_komplettansicht_def split: sum.splits option.splits)

text \<open>
  C10. If the page fetched at \<^verbatim>\<open>url + '/komplettansicht'\<close> does not link to a further
  \<^verbatim>\<open>/komplettansicht\<close> variant of its own url, Zeit's \<^verbatim>\<open>_soup_get_html(url)\<close> returns, and
  the run makes at most two requests: every invocation makes exactly one, so the recursion
  is at most two invocations deep.
\<close>

theorem zeit_soup_get_html_terminates:
  assumes "\<not> links_to_komplettansicht w (url @ ''/komplettansicht'')"
  shows "\<exists>r. zeit_soup_get_html w url = Some r \<and> requests (snd r) \<le> 2"
proof (cases "links_to_komplettansicht w url")
  case False
  from zeit_no_link [OF False] show ?thesis by auto
next
  case True
  from zeit_no_link [OF assms] obtain r
    where r: "zeit_soup_get_html w (url @ ''/komplettansicht'') = Some r" "requests (snd r) = 1"
    by blast
  have "zeit_soup_get_html w url = Some (except_TypeError (fst r, Request url # snd r))"
    by (simp add: zeit_link [OF True] r(1))
  moreover have "requests (snd (except_TypeError (fst r, Request url # snd r))) = 2"
    by (simp add: requests_except_TypeError requests_Cons r(2))
  ultimately show ?thesis by simp
qed

theorem zeit_soup_get_html_terminates_witness:
  "links_to_komplettansicht (example_world paginated_pages paginated_parse) ''https://www.zeit.de/a''
   \<and> \<not> links_to_komplettansicht (example_world paginated_pages paginated_parse)
         (''https://www.zeit.de/a'' @ ''/komplettansicht'')
   \<and> (\<exists>r. zeit_soup_get_html (example_world paginated_pages paginated_parse) ''https://www.zeit.de/a'' = Some r
          \<and> requests (snd r) \<le> 2)"
proof -
  have a: "links_to_komplettansicht (example_world paginated_pages paginated_parse) ''https://www.zeit.de/a''"
    by (simp add: links_to_komplettansicht_def example_world_def paginated_pages_def
        paginated_parse_def bs_defs)
  have b: "\<not> links_to_komplettansicht (example_world paginated_pages paginated_parse)
         (''https://www.zeit.de/a'' @ ''/komplettansicht'')"
    by (simp add: links_to_komplettansicht_def example_world_def paginated_pages_def
        paginated_parse_def bs_defs)
  from a b zeit_soup_get_html_terminates [OF b] show ?thesis by blast
qed

text \<open>The run of the example: two requests, and the one-page view is what is returned.\<close>

lemma zeit_paginated_run:
  "zeit_soup_get_html (example_world paginated_pages paginated_parse) ''https://www.zeit.de/a''
     = Some (Inr (Some ''full'', True),
             [Request ''https://www.zeit.de/a'', Request ''https://www.zeit.de/a/komplettansicht''])"
  apply (subst zeit_soup_get_html.simps)
  apply (subst zeit_soup_get_html.simps)
  apply (simp add: example_world_def paginated_pages_def paginated_parse_def bs_defs
      zeit_premium_icon_def except_TypeError_def)
  done

section \<open>Properties of the indexing methods\<close>

subsection \<open>What a returned value is made of\<close>

lemma collect_Inr_set:
  "collect f xs = Inr ys \<Longrightarrow> y \<in> set ys \<Longrightarrow> \<exists>x\<in>set xs. f x = Inr y"
  by (induction xs arbitrary: ys) (auto split: sum.splits)

lemma collect_length: "collect f xs = Inr ys \<Longrightarrow> length ys = length xs"
  by (induction xs arbitrary: ys) (auto split: sum.splits)

lemma drop_duplicates_from_unseen:
  "row \<in> set (drop_duplicates_from seen rows) \<Longrightarrow> fst row \<notin> set seen"
proof (induction rows arbitrary: seen)
  case Nil
  then show ?case by simp
next
  case (Cons r rows)
  show ?case
  proof (cases "fst r \<in> set seen")
    case True
    with Cons.prems have "row \<in> set (drop_duplicates_from seen rows)" by simp
    then show ?thesis by (rule Cons.IH)
  next
    case False
    with Cons.prems have "row = r \<or> row \<in> set (drop_duplicates_from (fst r # seen) rows)" by simp
    then show ?thesis
    proof
      assume "row = r" with False show ?thesis by simp
    next
      assume "row \<in> set (drop_duplicates_from (fst r # seen) rows)"
      from Cons.IH [OF this] show ?thesis by simp
    qed
  qed
qed

lemma drop_duplicates_from_distinct: "distinct (map fst (drop_duplicates_from seen rows))"
proof (induction rows arbitrary: seen)
  case Nil
  then show ?case by simp
next
  case (Cons r rows)
  have "fst r \<notin> fst ` set (drop_duplicates_from (fst r # seen) rows)"
  proof
    assume "fst r \<in> fst ` set (drop_duplicates_from (fst r # seen) rows)"
    then obtain row where row: "row \<in> set (drop_duplicates_from (fst r # seen) rows)" "fst row = fst r"
      by auto
    from drop_duplicates_from_unseen [OF row(1)] row(2) show False by simp
  qed
  with Cons.IH show ?case by simp
qed

lemma drop_duplicates_distinct: "distinct (map fst (drop_duplicates rows))"
  by (simp add: drop_duplicates_def drop_duplicates_from_distinct)

lemma drop_duplicates_from_subset: "set (drop_duplicates_from seen rows) \<subseteq> set rows"
  by (induction rows arbitrary: seen) auto

lemma drop_duplicates_subset: "set (drop_duplicates rows) \<subseteq> set rows"
  by (simp add: drop_duplicates_def drop_duplicates_from_subset)

lemma startswith_append: "startswith s p \<longleftrightarrow> (\<exists>r. s = p @ r)"
  by (induction s p rule: startswith.induct) auto

lemma welt_returns:
  assumes "fst (welt_get_articles_by_date w day) = Inr r"
  shows "r = Url_date_lists [] []
         \<or> (\<exists>soup urls pub_dates.
               collect welt_url (select soup ''a'' ''c-teaser__headline-link'') = Inr urls
             \<and> collect (welt_pub_date w)
                 (find_all soup ''article'' [(''class'', Equals ''c-teaser c-teaser--archive'')]) = Inr pub_dates
             \<and> length urls = length pub_dates
             \<and> r = Url_date_lists (map fst (drop_duplicates (zip urls pub_dates)))
                                  (map snd (drop_duplicates (zip urls pub_dates))))"
  using assms
  by (auto simp: welt_get_articles_by_date_def Let_def split: sum.splits if_splits)

lemma hit_urls_from_base:
  "hit_urls w hits = Inr us \<Longrightarrow> u \<in> set us \<Longrightarrow> from_base w u"
  by (induction hits arbitrary: us)
     (auto simp: plus_base_url_def from_base_def split: sum.splits option.splits if_splits)

lemma page_urls_from_base:
  "page_urls w ps = (Inr us, ev) \<Longrightarrow> u \<in> set us \<Longrightarrow> from_base w u"
  by (induction ps arbitrary: us ev)
     (auto split: sum.splits option.splits if_splits prod.splits dest: hit_urls_from_base)

lemma pagination_urls_from_base:
  "pagination_urls w soup = (Inr us, ev) \<Longrightarrow> u \<in> set us \<Longrightarrow> from_base w u"
  by (auto simp: pagination_urls_def split: sum.splits option.splits dest: page_urls_from_base)

lemma handelsblatt_returns:
  assumes "fst (handelsblatt_get_articles_by_date w day) = Inr r"
  shows "r = Url_list []
         \<or> (\<exists>urls0. (\<forall>u\<in>set urls0. from_base w u)
              \<and> r = Url_date_lists (list_set urls0) (replicate (length (list_set urls0)) (midnight_utc day)))"
proof (cases "request w (handelsblatt_index_url day)")
  case (Inl e)
  with assms show ?thesis by (simp add: handelsblatt_get_articles_by_date_def)
next
  case (Inr html)
  show ?thesis
  proof (cases html)
    case None
    with Inr assms show ?thesis by (simp add: handelsblatt_get_articles_by_date_def)
  next
    case (Some h)
    with Inr assms obtain soup urls1 urls2 ev where
      "hit_urls w (find_all soup ''div'' [(''class'', Equals ''hit'')]) = Inr urls1"
      "pagination_urls w soup = (Inr urls2, ev)"
      "r = fst (handelsblatt_finish day (urls1 @ urls2))"
      by (auto simp: handelsblatt_get_articles_by_date_def Let_def
          split: sum.splits prod.splits)
    moreover from this have "\<forall>u\<in>set (urls1 @ urls2). from_base w u"
      by (auto dest: hit_urls_from_base pagination_urls_from_base)
    ultimately have "(\<forall>u\<in>set (urls1 @ urls2). from_base w u)
        \<and> r = Url_date_lists (list_set (urls1 @ urls2))
                (replicate (length (list_set (urls1 @ urls2))) (midnight_utc day))"
      by (simp add: handelsblatt_finish_def Let_def)
    then show ?thesis by blast
  qed
qed

lemma zeit_returns:
  assumes "fst (zeit_get_articles_by_editions w year edition) = Inr r"
  shows "\<exists>hrefs. r = Url_list (list_set (filter (\<lambda>u. startswith u ''https://www.zeit.de/'') hrefs))"
proof (cases "request w (zeit_index_url year edition)")
  case (Inl e)
  with assms show ?thesis by (simp add: zeit_get_articles_by_editions_def)
next
  case (Inr html)
  show ?thesis
  proof (cases html)
    case None
    with Inr assms have "r = Url_list (list_set (filter (\<lambda>u. startswith u ''https://www.zeit.de/'') []))"
      by (simp add: zeit_get_articles_by_editions_def list_set_def)
    then show ?thesis by blast
  next
    case (Some h)
    with Inr assms show ?thesis
      by (auto simp: zeit_get_articles_by_editions_def Let_def split: sum.splits)
  qed
qed

subsection \<open>Runs on the example pages\<close>

lemmas ex_defs = welt_teaser_def welt_time_tag_def welt_archive_page_def pandas_world_def
  handelsblatt_hit_def handelsblatt_result_page_def zeit_index_page_def example_world_def

lemmas run_defs = welt_get_articles_by_date_def handelsblatt_get_articles_by_date_def
  zeit_get_articles_by_editions_def BeautifulSoup_def select_def welt_url_def welt_pub_date_def
  welt_parse_text_def from_pandas_def get_text_def drop_duplicates_def list_set_def
  handelsblatt_finish_def pagination_urls_def plus_base_url_def get_item_on_def midnight_utc_def
  strip_def

lemma welt_duplicate_run:
  "fst (welt_get_articles_by_date
          (pandas_world None (welt_archive_page
             [welt_teaser ''/politik/a1'' [welt_time_tag], welt_teaser ''/politik/a1'' [welt_time_tag]]))
          jan5)
     = Inr (Url_date_lists [''https://www.welt.de/politik/a1''] [Timestamp 1704450600 (Some UTC)])"
  by (simp add: run_defs ex_defs bs_defs Let_def)

lemma handelsblatt_run:
  "fst (handelsblatt_get_articles_by_date
          (pandas_world (Some ''https://archiv.handelsblatt.com'') handelsblatt_result_page) jan5)
     = Inr (Url_date_lists [''https://archiv.handelsblatt.com/document/HB__1'']
              [Datetime jan5 0 0 0 0 (Some UTC)])"
  by (simp add: run_defs ex_defs bs_defs Let_def)

lemma handelsblatt_unbound_run:
  "fst (handelsblatt_get_articles_by_date (pandas_world None handelsblatt_result_page) jan5)
     = Inl NameError"
  by (simp add: run_defs ex_defs bs_defs Let_def)

lemma zeit_run:
  "fst (zeit_get_articles_by_editions (pandas_world None zeit_index_page) 2024 2)
     = Inr (Url_list [''https://www.zeit.de/2024/02/x''])"
  by (simp add: run_defs ex_defs bs_defs Let_def)

text \<open>
  C2. The claim: every indexing call returns a pair of two lists of equal length, also when
  the index page request yields no HTML. When \<^verbatim>\<open>_request\<close> yields \<^verbatim>\<open>None\<close>, Handelsblatt's
  and Zeit's methods return the single empty list \<^verbatim>\<open>[]\<close>, which is not a pair, and Welt's
  method raises \<^verbatim>\<open>TypeError\<close> (its check for \<^verbatim>\<open>None\<close> is commented out).
\<close>

theorem index_without_html:
  "handelsblatt_get_articles_by_date (example_world (\<lambda>u. None) parse) day
     = (Inr (Url_list []), [Request (handelsblatt_index_url day)])
   \<and> zeit_get_articles_by_editions (example_world (\<lambda>u. None) parse) year edition
     = (Inr (Url_list []), [Request (zeit_index_url year edition)])
   \<and> fst (welt_get_articles_by_date (example_world (\<lambda>u. None) parse) day) = Inl TypeError
   \<and> \<not> is_url_date_pair (Url_list [])"
  by (simp add: run_defs ex_defs Let_def)

subsection \<open>Urls\<close>

lemma welt_url_http: "welt_url a = Inr u \<Longrightarrow> startswith u ''http''"
  by (auto simp: welt_url_def split: sum.splits if_splits)

lemma absolute_welt: "absolute_url (''https://www.welt.de'' @ href)"
  by (simp add: absolute_url_def host_of_def)

lemma absolute_zeit: "startswith u ''https://www.zeit.de/'' \<Longrightarrow> absolute_url u"
  by (auto simp: startswith_append absolute_url_def host_of_def)

lemma takeWhile_append_nonempty: "takeWhile P xs \<noteq> [] \<Longrightarrow> takeWhile P (xs @ ys) \<noteq> []"
  by (cases xs) (auto split: if_splits)

lemma absolute_url_append:
  assumes "absolute_url b"
  shows "absolute_url (b @ href)"
proof (cases "startswith b ''https://''")
  case True
  then obtain r where r: "b = ''https://'' @ r" by (auto simp: startswith_append)
  with assms have "takeWhile (\<lambda>c. c \<noteq> CHR ''/'') r \<noteq> []"
    by (simp add: absolute_url_def host_of_def)
  then have "takeWhile (\<lambda>c. c \<noteq> CHR ''/'') (r @ href) \<noteq> []"
    by (rule takeWhile_append_nonempty)
  with r show ?thesis by (simp add: absolute_url_def host_of_def)
next
  case False
  with assms have h: "startswith b ''http://''"
    by (auto simp: absolute_url_def host_of_def split: if_splits)
  then obtain r where r: "b = ''http://'' @ r" by (auto simp: startswith_append)
  with assms False have "takeWhile (\<lambda>c. c \<noteq> CHR ''/'') r \<noteq> []"
    by (simp add: absolute_url_def host_of_def)
  then have "takeWhile (\<lambda>c. c \<noteq> CHR ''/'') (r @ href) \<noteq> []"
    by (rule takeWhile_append_nonempty)
  with r show ?thesis by (simp add: absolute_url_def host_of_def)
qed

lemma welt_urls_distinct:
  assumes "fst (welt_get_articles_by_date w day) = Inr r"
  shows "distinct (result_urls r)"
  using welt_returns [OF assms] by (auto simp: drop_duplicates_distinct)

lemma handelsblatt_urls_distinct:
  assumes "fst (handelsblatt_get_articles_by_date w day) = Inr r"
  shows "distinct (result_urls r)"
  using handelsblatt_returns [OF assms] by (auto simp: list_set_def)

lemma zeit_urls_distinct:
  assumes "fst (zeit_get_articles_by_editions w year edition) = Inr r"
  shows "distinct (result_urls r)"
  using zeit_returns [OF assms] by (auto simp: list_set_def)

text \<open>
  C5. The list of urls returned by one indexing pass has no duplicates: whenever one of the
  three indexing methods returns, the urls of the returned value are distinct.
\<close>

theorem index_urls_distinct:
  "(fst (welt_get_articles_by_date w day) = Inr ra \<longrightarrow> distinct (result_urls ra))
   \<and> (fst (handelsblatt_get_articles_by_date w day) = Inr rb \<longrightarrow> distinct (result_urls rb))
   \<and> (fst (zeit_get_articles_by_editions w year edition) = Inr rc \<longrightarrow> distinct (result_urls rc))"
  by (simp add: welt_urls_distinct handelsblatt_urls_distinct zeit_urls_distinct)

theorem index_urls_distinct_witness:
  "fst (welt_get_articles_by_date
          (pandas_world None (welt_archive_page
             [welt_teaser ''/politik/a1'' [welt_time_tag], welt_teaser ''/politik/a1'' [welt_time_tag]]))
          jan5)
     = Inr (Url_date_lists [''https://www.welt.de/politik/a1''] [Timestamp 1704450600 (Some UTC)])
   \<and> fst (handelsblatt_get_articles_by_date
          (pandas_world (Some ''https://archiv.handelsblatt.com'') handelsblatt_result_page) jan5)
     = Inr (Url_date_lists [''https://archiv.handelsblatt.com/document/HB__1'']
              [Datetime jan5 0 0 0 0 (Some UTC)])
   \<and> fst (zeit_get_articles_by_editions (pandas_world None zeit_index_page) 2024 2)
     = Inr (Url_list [''https://www.zeit.de/2024/02/x''])
   \<and> distinct [''https://www.welt.de/politik/a1'']
   \<and> distinct [''https://archiv.handelsblatt.com/document/HB__1'']
   \<and> distinct [''https://www.zeit.de/2024/02/x'']"
  using welt_duplicate_run handelsblatt_run zeit_run
    index_urls_distinct
      [where w = "pandas_world None (welt_archive_page
             [welt_teaser ''/politik/a1'' [welt_time_tag], welt_teaser ''/politik/a1'' [welt_time_tag]])"
         and day = jan5
         and ra = "Url_date_lists [''https://www.welt.de/politik/a1''] [Timestamp 1704450600 (Some UTC)]"]
    index_urls_distinct
      [where w = "pandas_world (Some ''https://archiv.handelsblatt.com'') handelsblatt_result_page"
         and day = jan5
         and rb = "Url_date_lists [''https://archiv.handelsblatt.com/document/HB__1'']
              [Datetime jan5 0 0 0 0 (Some UTC)]"]
    index_urls_distinct
      [where w = "pandas_world None zeit_index_page" and year = 2024 and edition = 2
         and rc = "Url_list [''https://www.zeit.de/2024/02/x'']"]
  by simp

lemma from_pandas_cases: "from_pandas x = NaT \<or> (\<exists>t. from_pandas x = Timestamp t (Some UTC))"
  by (cases x) (simp_all add: from_pandas_def)

lemma welt_parse_text_cases:
  "welt_parse_text w s = NaT \<or> (\<exists>t. welt_parse_text w s = Timestamp t (Some UTC))"
  using from_pandas_cases by (simp add: welt_parse_text_def Let_def)

lemma welt_pub_date_cases:
  assumes "welt_pub_date w art = Inr d"
  shows "d = NaT \<or> (\<exists>t. d = Timestamp t (Some UTC))"
proof (cases "find_tag art ''span'' [(''class'', Equals ''c-teaser__date'')]")
  case None
  with assms have "d = welt_parse_text w (get_text '' '' art)" by (simp add: welt_pub_date_def)
  then show ?thesis using welt_parse_text_cases by simp
next
  case (Some time_tag)
  show ?thesis
  proof (cases "has_attr time_tag ''datetime''")
    case True
    with Some assms obtain v where "d = from_pandas (to_datetime_coerce w v)"
      by (auto simp: welt_pub_date_def split: sum.splits)
    then show ?thesis using from_pandas_cases by simp
  next
    case False
    with Some assms have "d = welt_parse_text w (get_text [] time_tag)"
      by (simp add: welt_pub_date_def)
    then show ?thesis using welt_parse_text_cases by simp
  qed
qed

lemma welt_dates:
  assumes "fst (welt_get_articles_by_date w day) = Inr r" and "d \<in> set (result_dates r)"
  shows "d = NaT \<or> (\<exists>t. d = Timestamp t (Some UTC))"
proof -
  from welt_returns [OF assms(1)] assms(2) obtain soup urls pub_dates u where
    c: "collect (welt_pub_date w)
          (find_all soup ''article'' [(''class'', Equals ''c-teaser c-teaser--archive'')]) = Inr pub_dates"
    and d: "(u, d) \<in> set (drop_duplicates (zip urls pub_dates))"
    by auto
  from d have "(u, d) \<in> set (zip urls pub_dates)" using drop_duplicates_subset by blast
  then have "d \<in> set pub_dates" by (rule set_zip_rightD)
  from collect_Inr_set [OF c this] obtain art where "welt_pub_date w art = Inr d" by blast
  then show ?thesis by (rule welt_pub_date_cases)
qed

lemma welt_urls_http:
  assumes "fst (welt_get_articles_by_date w day) = Inr r" and "u \<in> set (result_urls r)"
  shows "startswith u ''http''"
proof -
  from welt_returns [OF assms(1)] assms(2) obtain soup urls pub_dates d where
    c: "collect welt_url (select soup ''a'' ''c-teaser__headline-link'') = Inr urls"
    and u: "(u, d) \<in> set (drop_duplicates (zip urls (pub_dates :: pub_date list)))"
    by auto
  from u have "(u, d) \<in> set (zip urls pub_dates)" using drop_duplicates_subset by blast
  then have "u \<in> set urls" by (rule set_zip_leftD)
  from collect_Inr_set [OF c this] obtain a where "welt_url a = Inr u" by blast
  then show ?thesis by (rule welt_url_http)
qed

lemma handelsblatt_dates:
  assumes "fst (handelsblatt_get_articles_by_date w day) = Inr r" and "d \<in> set (result_dates r)"
  shows "d = midnight_utc day"
  using handelsblatt_returns [OF assms(1)] assms(2) by auto

lemma handelsblatt_urls_from_base:
  assumes "fst (handelsblatt_get_articles_by_date w day) = Inr r" and "u \<in> set (result_urls r)"
  shows "from_base w u"
  using handelsblatt_returns [OF assms(1)] assms(2) by (auto simp: list_set_def)

lemma zeit_urls_prefix:
  assumes "fst (zeit_get_articles_by_editions w year edition) = Inr r" and "u \<in> set (result_urls r)"
  shows "startswith u ''https://www.zeit.de/''"
  using zeit_returns [OF assms(1)] assms(2) by (auto simp: list_set_def)

text \<open>
  C6, as stated, fails: Welt's method keeps every href that starts with \<^verbatim>\<open>http\<close> as it is
  and filters nothing, so the relative href \<^verbatim>\<open>https-erklaert.html\<close> of a headline link is
  returned unchanged, and it is not an absolute url.
\<close>

theorem index_urls_http_not_absolute:
  "fst (welt_get_articles_by_date
          (example_world (\<lambda>u. Some ''<html>'')
             (\<lambda>h. welt_archive_page [welt_teaser ''https-erklaert.html'' [welt_time_tag]]))
          jan5)
     = Inr (Url_date_lists [''https-erklaert.html''] [NaT])
   \<and> \<not> absolute_url ''https-erklaert.html''"
  by (simp add: run_defs ex_defs bs_defs Let_def absolute_url_def host_of_def)

text \<open>
  C6, amended. Every url Zeit's method returns starts with \<^verbatim>\<open>https://www.zeit.de/\<close> and is
  absolute. Every url Handelsblatt's method returns is the binding of \<^verbatim>\<open>base_url\<close> followed
  by an href that starts with a slash, and is absolute when that binding is. Every url
  Welt's method returns starts with \<^verbatim>\<open>http\<close>: an href that does not start with \<^verbatim>\<open>http\<close> is
  prefixed with \<^verbatim>\<open>https://www.welt.de\<close>, which makes it absolute, and any other href is kept
  as it is.
\<close>

theorem index_urls_prefixed:
  "(fst (zeit_get_articles_by_editions w year edition) = Inr rc
      \<longrightarrow> (\<forall>u\<in>set (result_urls rc). startswith u ''https://www.zeit.de/'' \<and> absolute_url u))
   \<and> (fst (handelsblatt_get_articles_by_date w day) = Inr rb
      \<longrightarrow> (\<forall>u\<in>set (result_urls rb).
             \<exists>b href. base_url w = Some b \<and> u = b @ href \<and> startswith href ''/''
                    \<and> (absolute_url b \<longrightarrow> absolute_url u)))
   \<and> (fst (welt_get_articles_by_date w day) = Inr ra
      \<longrightarrow> (\<forall>u\<in>set (result_urls ra). startswith u ''http''))
   \<and> (get_item a ''href'' = Inr href
      \<longrightarrow> welt_url a = Inr (if startswith href ''http'' then href else ''https://www.welt.de'' @ href)
          \<and> absolute_url (''https://www.welt.de'' @ href))"
proof (intro conjI impI ballI)
  fix u assume "fst (zeit_get_articles_by_editions w year edition) = Inr rc" "u \<in> set (result_urls rc)"
  then show "startswith u ''https://www.zeit.de/''" by (rule zeit_urls_prefix)
  then show "absolute_url u" by (rule absolute_zeit)
next
  fix u assume "fst (handelsblatt_get_articles_by_date w day) = Inr rb" "u \<in> set (result_urls rb)"
  then have "from_base w u" by (rule handelsblatt_urls_from_base)
  then show "\<exists>b href. base_url w = Some b \<and> u = b @ href \<and> startswith href ''/''
                    \<and> (absolute_url b \<longrightarrow> absolute_url u)"
    by (auto simp: from_base_def absolute_url_append)
next
  fix u assume "fst (welt_get_articles_by_date w day) = Inr ra" "u \<in> set (result_urls ra)"
  then show "startswith u ''http''" by (rule welt_urls_http)
next
  assume "get_item a ''href'' = Inr href"
  then show "welt_url a = Inr (if startswith href ''http'' then href else ''https://www.welt.de'' @ href)"
    by (simp add: welt_url_def)
next
  show "absolute_url (''https://www.welt.de'' @ href)" by (rule absolute_welt)
qed

theorem index_urls_prefixed_witness:
  "fst (zeit_get_articles_by_editions (pandas_world None zeit_index_page) 2024 2)
     = Inr (Url_list [''https://www.zeit.de/2024/02/x''])
   \<and> absolute_url ''https://www.zeit.de/2024/02/x''
   \<and> fst (handelsblatt_get_articles_by_date
          (pandas_world (Some ''https://archiv.handelsblatt.com'') handelsblatt_result_page) jan5)
     = Inr (Url_date_lists [''https://archiv.handelsblatt.com/document/HB__1'']
              [Datetime jan5 0 0 0 0 (Some UTC)])
   \<and> absolute_url ''https://archiv.handelsblatt.com''
   \<and> absolute_url ''https://archiv.handelsblatt.com/document/HB__1''
   \<and> fst (welt_get_articles_by_date
          (pandas_world None (welt_archive_page
             [welt_teaser ''/politik/a1'' [welt_time_tag], welt_teaser ''/politik/a1'' [welt_time_tag]]))
          jan5)
     = Inr (Url_date_lists [''https://www.welt.de/politik/a1''] [Timestamp 1704450600 (Some UTC)])
   \<and> startswith ''https://www.welt.de/politik/a1'' ''http''
   \<and> get_item (Tag ''a'' [(''href'', ''/politik/a1'')] []) ''href'' = Inr ''/politik/a1''
   \<and> welt_url (Tag ''a'' [(''href'', ''/politik/a1'')] []) = Inr ''https://www.welt.de/politik/a1''"
proof -
  have z: "fst (zeit_get_articles_by_editions (pandas_world None zeit_index_page) 2024 2)
     = Inr (Url_list [''https://www.zeit.de/2024/02/x''])"
    by (rule zeit_run)
  have h: "fst (handelsblatt_get_articles_by_date
          (pandas_world (Some ''https://archiv.handelsblatt.com'') handelsblatt_result_page) jan5)
     = Inr (Url_date_lists [''https://archiv.handelsblatt.com/document/HB__1'']
              [Datetime jan5 0 0 0 0 (Some UTC)])"
    by (rule handelsblatt_run)
  have b: "base_url (pandas_world (Some ''https://archiv.handelsblatt.com'') handelsblatt_result_page)
             = Some ''https://archiv.handelsblatt.com''"
    by (simp add: pandas_world_def)
  have ab: "absolute_url ''https://archiv.handelsblatt.com''"
    by (simp add: absolute_url_def host_of_def)
  have x: "fst (welt_get_articles_by_date
          (pandas_world None (welt_archive_page
             [welt_teaser ''/politik/a1'' [welt_time_tag], welt_teaser ''/politik/a1'' [welt_time_tag]]))
          jan5)
     = Inr (Url_date_lists [''https://www.welt.de/politik/a1''] [Timestamp 1704450600 (Some UTC)])"
    by (rule welt_duplicate_run)
  have g: "get_item (Tag ''a'' [(''href'', ''/politik/a1'')] []) ''href'' = Inr ''/politik/a1''"
    by simp
  from z index_urls_prefixed
      [where w = "pandas_world None zeit_index_page" and year = 2024 and edition = 2
         and rc = "Url_list [''https://www.zeit.de/2024/02/x'']"]
  have c1: "absolute_url ''https://www.zeit.de/2024/02/x''" by simp
  from h b ab index_urls_prefixed
      [where w = "pandas_world (Some ''https://archiv.handelsblatt.com'') handelsblatt_result_page"
         and day = jan5
         and rb = "Url_date_lists [''https://archiv.handelsblatt.com/document/HB__1'']
              [Datetime jan5 0 0 0 0 (Some UTC)]"]
  have c2: "absolute_url ''https://archiv.handelsblatt.com/document/HB__1''" by auto
  from x index_urls_prefixed
      [where w = "pandas_world None (welt_archive_page
             [welt_teaser ''/politik/a1'' [welt_time_tag], welt_teaser ''/politik/a1'' [welt_time_tag]])"
         and day = jan5
         and ra = "Url_date_lists [''https://www.welt.de/politik/a1''] [Timestamp 1704450600 (Some UTC)]"]
  have c3: "startswith ''https://www.welt.de/politik/a1'' ''http''" by simp
  from g index_urls_prefixed
      [where a = "Tag ''a'' [(''href'', ''/politik/a1'')] []" and href = "''/politik/a1''"]
  have c4: "welt_url (Tag ''a'' [(''href'', ''/politik/a1'')] []) = Inr ''https://www.welt.de/politik/a1''"
    by simp
  from z h ab x g c1 c2 c3 c4 show ?thesis by blast
qed

subsection \<open>Publication dates\<close>

text \<open>
  C7, as stated, fails: for a Welt teaser without any date text the method appends
  \<^verbatim>\<open>pd.NaT\<close>, the missing value, which is not a timezone-aware timestamp.
\<close>

theorem index_dates_NaT:
  "fst (welt_get_articles_by_date
          (example_world (\<lambda>u. Some ''<html>'')
             (\<lambda>h. welt_archive_page [welt_teaser ''/politik/a1'' []]))
          jan5)
     = Inr (Url_date_lists [''https://www.welt.de/politik/a1''] [NaT])
   \<and> \<not> tz_aware NaT"
  by (simp add: run_defs ex_defs bs_defs Let_def)

text \<open>
  C7, amended. Every publication date Handelsblatt's method returns is midnight UTC of the
  indexed day, a timezone-aware value. Every publication date Welt's method returns is
  either a timestamp in UTC or the missing value \<^verbatim>\<open>pd.NaT\<close>.
\<close>

theorem index_dates_utc_or_NaT:
  "(fst (handelsblatt_get_articles_by_date w day) = Inr rb
      \<longrightarrow> (\<forall>d\<in>set (result_dates rb). d = Datetime day 0 0 0 0 (Some UTC) \<and> tz_aware d))
   \<and> (fst (welt_get_articles_by_date w day) = Inr ra
      \<longrightarrow> (\<forall>d\<in>set (result_dates ra). d = NaT \<or> (\<exists>t. d = Timestamp t (Some UTC) \<and> tz_aware d)))"
proof (intro conjI impI ballI)
  fix d assume "fst (handelsblatt_get_articles_by_date w day) = Inr rb" "d \<in> set (result_dates rb)"
  then have "d = midnight_utc day" by (rule handelsblatt_dates)
  then show "d = Datetime day 0 0 0 0 (Some UTC)" by (simp add: midnight_utc_def)
  then show "tz_aware d" by simp
next
  fix d assume "fst (welt_get_articles_by_date w day) = Inr ra" "d \<in> set (result_dates ra)"
  then have "d = NaT \<or> (\<exists>t. d = Timestamp t (Some UTC))" by (rule welt_dates)
  then show "d = NaT \<or> (\<exists>t. d = Timestamp t (Some UTC) \<and> tz_aware d)" by auto
qed

theorem index_dates_utc_or_NaT_witness:
  "fst (handelsblatt_get_articles_by_date
          (pandas_world (Some ''https://archiv.handelsblatt.com'') handelsblatt_result_page) jan5)
     = Inr (Url_date_lists [''https://archiv.handelsblatt.com/document/HB__1'']
              [Datetime jan5 0 0 0 0 (Some UTC)])
   \<and> tz_aware (Datetime jan5 0 0 0 0 (Some UTC))
   \<and> fst (welt_get_articles_by_date
          (pandas_world None (welt_archive_page
             [welt_teaser ''/politik/a1'' [welt_time_tag], welt_teaser ''/politik/a1'' [welt_time_tag]]))
          jan5)
     = Inr (Url_date_lists [''https://www.welt.de/politik/a1''] [Timestamp 1704450600 (Some UTC)])
   \<and> tz_aware (Timestamp 1704450600 (Some UTC))"
proof -
  have h: "fst (handelsblatt_get_articles_by_date
          (pandas_world (Some ''https://archiv.handelsblatt.com'') handelsblatt_result_page) jan5)
     = Inr (Url_date_lists [''https://archiv.handelsblatt.com/document/HB__1'']
              [Datetime jan5 0 0 0 0 (Some UTC)])"
    by (rule handelsblatt_run)
  have x: "fst (welt_get_articles_by_date
          (pandas_world None (welt_archive_page
             [welt_teaser ''/politik/a1'' [welt_time_tag], welt_teaser ''/politik/a1'' [welt_time_tag]]))
          jan5)
     = Inr (Url_date_lists [''https://www.welt.de/politik/a1''] [Timestamp 1704450600 (Some UTC)])"
    by (rule welt_duplicate_run)
  from h index_dates_utc_or_NaT
      [where w = "pandas_world (Some ''https://archiv.handelsblatt.com'') handelsblatt_result_page"
         and day = jan5
         and rb = "Url_date_lists [''https://archiv.handelsblatt.com/document/HB__1'']
              [Datetime jan5 0 0 0 0 (Some UTC)]"]
  have c1: "tz_aware (Datetime jan5 0 0 0 0 (Some UTC))" by simp
  from x index_dates_utc_or_NaT
      [where w = "pandas_world None (welt_archive_page
             [welt_teaser ''/politik/a1'' [welt_time_tag], welt_teaser ''/politik/a1'' [welt_time_tag]])"
         and day = jan5
         and ra = "Url_date_lists [''https://www.welt.de/politik/a1''] [Timestamp 1704450600 (Some UTC)]"]
  have c2: "tz_aware (Timestamp 1704450600 (Some UTC))" by simp
  from h x c1 c2 show ?thesis by blast
qed

section \<open>Properties of the browser session methods\<close>

subsection \<open>Login\<close>





lemmas login_defs = welt_selenium_login_def zeit_selenium_login_def handelsblatt_selenium_login_def
  welt_login_steps_def zeit_login_steps_def handelsblatt_login_steps_def
  welt_login_calls_def zeit_login_calls_def handelsblatt_open_calls_def handelsblatt_cookie_calls_def
  handelsblatt_form_calls_def welt_check_calls_def zeit_check_calls_def handelsblatt_check_calls_def
  check_login_def try_pass_def then_calls_def call_outcome_def
  calm_driver_def failing_driver_def location_def




text \<open>
  Welt's final check waits with \<^verbatim>\<open>WebDriverWait\<close> but catches \<^verbatim>\<open>NoSuchElementException\<close>,
  so a greeting that never shows raises \<^verbatim>\<open>TimeoutException\<close> to the caller. Timeouts of
  Handelsblatt's optional cookie banners are ignored.
\<close>

lemma welt_login_greeting_timeout:
  \<open>fst (welt_selenium_login
          (failing_driver (WaitPresence 10 CSS_SELECTOR ''div[name="greeting"]'') TimeoutException)
          ''reader@example.org'' ''secret'')
     = Inl TimeoutException\<close>
  by (simp add: login_defs Let_def)

lemma handelsblatt_cookie_timeouts_ignored:
  "fst (handelsblatt_selenium_login no_banner_driver ''reader@example.org'' ''secret'') = Inr True"
  by (simp add: login_defs no_banner_driver_def Let_def)

lemma handelsblatt_calm: "handelsblatt_selenium_login calm_driver ''reader@example.org'' ''secret'' =
   (Inr True, handelsblatt_open_calls @ handelsblatt_cookie_calls
        @ handelsblatt_form_calls ''reader@example.org'' ''secret'' @ handelsblatt_cookie_calls
        @ handelsblatt_check_calls ''reader@example.org'',
    [Log INFO ''Logged in to Handelsblatt.''])"
  by (simp add: login_defs Let_def)

subsection \<open>Zeit's premium fetch\<close>

lemmas driver_defs = call_outcome_def failing_driver_def calm_driver_def komplettansicht_link_def
  location_def

text \<open>
  C8, as stated, fails: on a navigation timeout \<^verbatim>\<open>_selenium_get_html\<close> neither returns
  \<^verbatim>\<open>None\<close> nor logs; the \<^verbatim>\<open>TimeoutException\<close> of \<^verbatim>\<open>driver.get\<close> reaches the caller.
\<close>

theorem navigation_timeout_raises:
  "zeit_selenium_get_html (failing_driver (Get ''https://www.zeit.de/a'') TimeoutException)
     ''https://www.zeit.de/a''
     = (Inl TimeoutException, [Get ''https://www.zeit.de/a''])"
  by (simp add: zeit_selenium_get_html_def try_pass_def driver_defs)

text \<open>
  C8, amended. The method navigates to \<open>url\<close>. If the page has no link to
  \<^verbatim>\<open>url + '/komplettansicht'\<close> it returns the page source there; if it has, the method
  navigates to \<^verbatim>\<open>url + '/komplettansicht'\<close> and returns the page source there. An
  exception of a navigation, a timeout included, propagates to the caller.
\<close>

theorem zeit_selenium_get_html_runs:
  "(call_outcome d 0 (Get url) = Some e \<longrightarrow> zeit_selenium_get_html d url = (Inl e, [Get url]))
   \<and> (call_outcome d 0 (Get url) = None
        \<and> call_outcome d 1 (komplettansicht_link url) = Some NoSuchElementException
      \<longrightarrow> zeit_selenium_get_html d url
            = (Inr (page_source d [Get url, komplettansicht_link url]),
               [Get url, komplettansicht_link url]))
   \<and> (call_outcome d 0 (Get url) = None
        \<and> call_outcome d 1 (komplettansicht_link url) = None
        \<and> call_outcome d 2 (Get (url @ ''/komplettansicht'')) = None
      \<longrightarrow> zeit_selenium_get_html d url
            = (Inr (page_source d [Get url, komplettansicht_link url, Get (url @ ''/komplettansicht'')]),
               [Get url, komplettansicht_link url, Get (url @ ''/komplettansicht'')]))
   \<and> (call_outcome d 0 (Get url) = None
        \<and> call_outcome d 1 (komplettansicht_link url) = None
        \<and> call_outcome d 2 (Get (url @ ''/komplettansicht'')) = Some TimeoutException
      \<longrightarrow> zeit_selenium_get_html d url
            = (Inl TimeoutException,
               [Get url, komplettansicht_link url, Get (url @ ''/komplettansicht'')]))"
  by (simp add: zeit_selenium_get_html_def try_pass_def numeral_2_eq_2)

theorem zeit_selenium_get_html_runs_witness:
  "call_outcome (failing_driver (Get ''https://www.zeit.de/a'') TimeoutException) 0
       (Get ''https://www.zeit.de/a'') = Some TimeoutException
   \<and> zeit_selenium_get_html (failing_driver (Get ''https://www.zeit.de/a'') TimeoutException)
       ''https://www.zeit.de/a''
     = (Inl TimeoutException, [Get ''https://www.zeit.de/a''])
   \<and> call_outcome (failing_driver (komplettansicht_link ''https://www.zeit.de/a'') NoSuchElementException) 1
       (komplettansicht_link ''https://www.zeit.de/a'') = Some NoSuchElementException
   \<and> zeit_selenium_get_html
       (failing_driver (komplettansicht_link ''https://www.zeit.de/a'') NoSuchElementException)
       ''https://www.zeit.de/a''
     = (Inr ''<html>https://www.zeit.de/a</html>'',
        [Get ''https://www.zeit.de/a'', komplettansicht_link ''https://www.zeit.de/a''])
   \<and> call_outcome calm_driver 1 (komplettansicht_link ''https://www.zeit.de/a'') = None
   \<and> zeit_selenium_get_html calm_driver ''https://www.zeit.de/a''
     = (Inr ''<html>https://www.zeit.de/a/komplettansicht</html>'',
        [Get ''https://www.zeit.de/a'', komplettansicht_link ''https://www.zeit.de/a'',
         Get ''https://www.zeit.de/a/komplettansicht''])
   \<and> call_outcome (failing_driver (Get ''https://www.zeit.de/a/komplettansicht'') TimeoutException) 2
       (Get (''https://www.zeit.de/a'' @ ''/komplettansicht'')) = Some TimeoutException
   \<and> fst (zeit_selenium_get_html
            (failing_driver (Get ''https://www.zeit.de/a/komplettansicht'') TimeoutException)
            ''https://www.zeit.de/a'')
     = Inl TimeoutException"
proof -
  let ?a = "''https://www.zeit.de/a''"
  let ?d1 = "failing_driver (Get ?a) TimeoutException"
  let ?d2 = "failing_driver (komplettansicht_link ?a) NoSuchElementException"
  let ?d4 = "failing_driver (Get ''https://www.zeit.de/a/komplettansicht'') TimeoutException"
  have h1: "call_outcome ?d1 0 (Get ?a) = Some TimeoutException"
    by (simp add: driver_defs)
  have h2: "call_outcome ?d2 0 (Get ?a) = None"
    "call_outcome ?d2 1 (komplettansicht_link ?a) = Some NoSuchElementException"
    by (simp_all add: driver_defs)
  have h3: "call_outcome calm_driver 0 (Get ?a) = None"
    "call_outcome calm_driver 1 (komplettansicht_link ?a) = None"
    "call_outcome calm_driver 2 (Get (?a @ ''/komplettansicht'')) = None"
    by (simp_all add: driver_defs)
  have h4: "call_outcome ?d4 0 (Get ?a) = None"
    "call_outcome ?d4 1 (komplettansicht_link ?a) = None"
    "call_outcome ?d4 2 (Get (?a @ ''/komplettansicht'')) = Some TimeoutException"
    by (simp_all add: driver_defs)
  from h1 zeit_selenium_get_html_runs [of ?d1 ?a TimeoutException]
  have c1: "zeit_selenium_get_html ?d1 ?a = (Inl TimeoutException, [Get ?a])" by blast
  from h2 zeit_selenium_get_html_runs [of ?d2 ?a]
  have "zeit_selenium_get_html ?d2 ?a
          = (Inr (page_source ?d2 [Get ?a, komplettansicht_link ?a]), [Get ?a, komplettansicht_link ?a])"
    by blast
  then have c2: "zeit_selenium_get_html ?d2 ?a
          = (Inr ''<html>https://www.zeit.de/a</html>'', [Get ?a, komplettansicht_link ?a])"
    by (simp add: failing_driver_def location_def komplettansicht_link_def)
  from h3 zeit_selenium_get_html_runs [of calm_driver ?a]
  have "zeit_selenium_get_html calm_driver ?a
          = (Inr (page_source calm_driver [Get ?a, komplettansicht_link ?a, Get (?a @ ''/komplettansicht'')]),
             [Get ?a, komplettansicht_link ?a, Get (?a @ ''/komplettansicht'')])"
    by blast
  then have c3: "zeit_selenium_get_html calm_driver ?a
     = (Inr ''<html>https://www.zeit.de/a/komplettansicht</html>'',
        [Get ?a, komplettansicht_link ?a, Get ''https://www.zeit.de/a/komplettansicht''])"
    by (simp add: calm_driver_def location_def komplettansicht_link_def)
  from h4 zeit_selenium_get_html_runs [of ?d4 ?a]
  have c4: "fst (zeit_selenium_get_html ?d4 ?a) = Inl TimeoutException" by simp
  from h1 h2(2) h3(2) h4(3) c1 c2 c3 c4 show ?thesis by blast
qed

end
